theory Spec2Isabelle
  imports Complex_Main "HOL-Library.Word"
begin

section \<open>JavaScript values\<close>

text \<open>
  Strings are lists of code units; the model covers the code units below 256
  (\<^typ>\<open>char\<close>), on which \<open>trim\<close> and \<open>toLowerCase\<close> are given exactly.
  A JSON value is what \<open>JSON.parse\<close> returns. Its numbers are restricted to the
  integers from \<open>-2^53\<close> to \<open>2^53 - 1\<close>, the signed values of a 54-bit word: a
  double holds each of them exactly and JavaScript writes each in plain decimal
  (the exponent form starts at \<open>10^21\<close>). An object lists its members in the order
  in which they were defined, as the parser does; a member that defines a key again
  replaces the value and keeps the place of the key.
  A JavaScript value that may be \<open>undefined\<close> is a \<^typ>\<open>'a option\<close> with
  \<open>None\<close> for \<open>undefined\<close>; \<open>null\<close> is the JSON value \<open>JNull\<close>.
\<close>

datatype json =
    JNull
  | JBool bool
  | JNum "54 word"
  | JStr string
  | JArr "json list"
  | JObj "(string \<times> json) list"

type_synonym jsvalue = "json option"

datatype js_error = TypeError | SyntaxError | StoreError

subsection \<open>Maps with insertion order\<close>

text \<open>A JavaScript \<open>Map\<close> (and the key space of the store) as an association list in
  insertion order: \<open>set\<close> on a present key replaces the value in place, on an absent
  key appends; \<open>delete\<close> removes the entry.\<close>

definition Map_get :: "'k \<Rightarrow> ('k \<times> 'v) list \<Rightarrow> 'v option" where
  "Map_get k m = map_of m k"

definition Map_has :: "'k \<Rightarrow> ('k \<times> 'v) list \<Rightarrow> bool" where
  "Map_has k m = (map_of m k \<noteq> None)"

fun Map_set :: "'k \<Rightarrow> 'v \<Rightarrow> ('k \<times> 'v) list \<Rightarrow> ('k \<times> 'v) list" where
  "Map_set k v [] = [(k, v)]"
| "Map_set k v (p # ps) = (if fst p = k then (k, v) # ps else p # Map_set k v ps)"

definition Map_delete :: "'k \<Rightarrow> ('k \<times> 'v) list \<Rightarrow> ('k \<times> 'v) list" where
  "Map_delete k m = filter (\<lambda>p. fst p \<noteq> k) m"

subsection \<open>Objects and serialisation\<close>

text \<open>
  The names every object inherits from \<open>Object.prototype\<close>. A lookup \<open>obj[name]\<close> on
  an object literal finds them when \<open>name\<close> is not an own key, and the value found
  (a function, or the prototype object itself) is truthy.
\<close>

definition Object_prototype :: "string list" where
  "Object_prototype =
     [''constructor'', ''__defineGetter__'', ''__defineSetter__'', ''hasOwnProperty'',
      ''__lookupGetter__'', ''__lookupSetter__'', ''isPrototypeOf'',
      ''propertyIsEnumerable'', ''toString'', ''valueOf'', ''__proto__'',
      ''toLocaleString'']"

fun join :: "string \<Rightarrow> string list \<Rightarrow> string" where
  "join sep [] = []"
| "join sep [x] = x"
| "join sep (x # y # ys) = x @ sep @ join sep (y # ys)"

definition digit :: "nat \<Rightarrow> char" where
  "digit n = char_of (48 + n mod 10)"

fun show_nat :: "nat \<Rightarrow> string" where
  "show_nat n = (if n < 10 then [digit n] else show_nat (n div 10) @ [digit n])"

declare show_nat.simps [simp del]

function show_digits :: "int \<Rightarrow> string" where
  "show_digits n =
     (if n < 10 then [digit (nat n)] else show_digits (n div 10) @ [digit (nat (n mod 10))])"
  by pat_completeness auto

termination
  by (relation "measure nat") auto

declare show_digits.simps [simp del]

definition show_int :: "int \<Rightarrow> string" where
  "show_int i = (if i < 0 then CHR ''-'' # show_digits (- i) else show_digits i)"

definition hex_digit :: "nat \<Rightarrow> char" where
  "hex_digit n = (if n mod 16 < 10 then char_of (48 + n mod 16) else char_of (87 + n mod 16))"

text \<open>
  The own properties of an object as it enumerates them: the keys that are array
  indices (the decimal numerals below \<open>2^32 - 1\<close>, without leading zero) come first,
  in ascending order, then the other keys in the order of their definition.
\<close>

definition array_index :: "string \<Rightarrow> int option" where
  "array_index k =
     (if k \<noteq> [] \<and> list_all (\<lambda>c. 48 \<le> (of_char c :: int) \<and> (of_char c :: int) \<le> 57) k
         \<and> (k = ''0'' \<or> take 1 k \<noteq> ''0'')
      then (let n = fold (\<lambda>c n. 10 * n + ((of_char c :: int) - 48)) k 0
            in if n < 4294967295 then Some n else None)
      else None)"

definition own_properties :: "(string \<times> 'a) list \<Rightarrow> (string \<times> 'a) list" where
  "own_properties ms =
     (let defined = fold (\<lambda>m acc. Map_set (fst m) (snd m) acc) ms []
      in sort_key (\<lambda>m. case array_index (fst m) of None \<Rightarrow> 0 | Some n \<Rightarrow> n)
           (filter (\<lambda>m. array_index (fst m) \<noteq> None) defined)
         @ filter (\<lambda>m. array_index (fst m) = None) defined)"

text \<open>\<open>JSON.stringify\<close> on a string: the quote, the backslash and the control
  characters are escaped, every other code unit is written as it is.\<close>

definition escape_char :: "char \<Rightarrow> string" where
  "escape_char c =
     (let n = (of_char c :: nat) in
      if n = 34 then [CHR 0x5C, CHR 0x22]
      else if n = 92 then [CHR 0x5C, CHR 0x5C]
      else if n = 8 then [CHR 0x5C, CHR ''b'']
      else if n = 12 then [CHR 0x5C, CHR ''f'']
      else if n = 10 then [CHR 0x5C, CHR ''n'']
      else if n = 13 then [CHR 0x5C, CHR ''r'']
      else if n = 9 then [CHR 0x5C, CHR ''t'']
      else if n < 32 then [CHR 0x5C, CHR ''u'', CHR ''0'', CHR ''0'', hex_digit (n div 16), hex_digit n]
      else [c])"

definition quote :: "string \<Rightarrow> string" where
  "quote s = [CHR 0x22] @ concat (map escape_char s) @ [CHR 0x22]"

fun JSON_stringify :: "json \<Rightarrow> string"
  and stringify_elements :: "json list \<Rightarrow> string list"
  and stringify_members :: "(string \<times> json) list \<Rightarrow> (string \<times> string) list" where
  "JSON_stringify JNull = ''null''"
| "JSON_stringify (JBool b) = (if b then ''true'' else ''false'')"
| "JSON_stringify (JNum i) = show_int (sint i)"
| "JSON_stringify (JStr s) = quote s"
| "JSON_stringify (JArr vs) = ''['' @ join '','' (stringify_elements vs) @ '']''"
| "JSON_stringify (JObj ms) =
     ''{'' @ join '','' (map (\<lambda>m. quote (fst m) @ '':'' @ snd m) (own_properties (stringify_members ms)))
     @ ''}''"
| "stringify_elements [] = []"
| "stringify_elements (v # vs) = JSON_stringify v # stringify_elements vs"
| "stringify_members [] = []"
| "stringify_members ((k, v) # ms) = (k, JSON_stringify v) # stringify_members ms"

text \<open>\<open>JSON.stringify(data).length\<close>: \<open>JSON.stringify(undefined)\<close> is
  \<open>undefined\<close>, and reading its \<open>length\<close> throws a TypeError.\<close>

definition stringify_length :: "jsvalue \<Rightarrow> js_error + nat" where
  "stringify_length data =
     (case data of None \<Rightarrow> Inl TypeError | Some v \<Rightarrow> Inr (length (JSON_stringify v)))"

section \<open>CacheStrategy\<close>

text \<open>A strategy object. \<open>strategies[type]\<close> on an inherited name is not one of
  the eight strategies: its \<open>ttl\<close> and \<open>prefix\<close> are \<open>undefined\<close>.\<close>

record strategy =
  ttl :: "int option"
  prefix :: "string option"

definition strategies :: "string \<Rightarrow> strategy option" where
  "strategies type =
     (if type = ''cloudpc'' then Some \<lparr>ttl = Some 3600, prefix = Some ''cloudpc''\<rparr>
      else if type = ''session'' then Some \<lparr>ttl = Some 86400, prefix = Some ''session''\<rparr>
      else if type = ''user'' then Some \<lparr>ttl = Some 7200, prefix = Some ''user''\<rparr>
      else if type = ''api'' then Some \<lparr>ttl = Some 600, prefix = Some ''api''\<rparr>
      else if type = ''stats'' then Some \<lparr>ttl = Some 1800, prefix = Some ''stats''\<rparr>
      else if type = ''config'' then Some \<lparr>ttl = Some 3600, prefix = Some ''config''\<rparr>
      else if type = ''realtime'' then Some \<lparr>ttl = Some 300, prefix = Some ''realtime''\<rparr>
      else if type = ''logs'' then Some \<lparr>ttl = Some 600, prefix = Some ''logs''\<rparr>
      else None)"

definition getStrategy :: "string \<Rightarrow> strategy" where
  "getStrategy type =
     (case strategies type of
        Some s \<Rightarrow> s
      | None \<Rightarrow>
          if type \<in> set Object_prototype then \<lparr>ttl = None, prefix = None\<rparr>
          else the (strategies ''api''))"

definition render :: "string option \<Rightarrow> string" where
  "render v = (case v of None \<Rightarrow> ''undefined'' | Some s \<Rightarrow> s)"

text \<open>\<open>args.join(':')\<close> writes an \<open>undefined\<close> element as the empty string.\<close>

definition generateKey :: "string \<Rightarrow> string option list \<Rightarrow> string" where
  "generateKey type args =
     (let strategy = getStrategy type;
          suffix = (if length args > 0
                    then '':'' @ join '':'' (map (\<lambda>a. case a of None \<Rightarrow> [] | Some s \<Rightarrow> s) args)
                    else [])
      in render (prefix strategy) @ suffix)"

definition getTTL :: "string \<Rightarrow> int option" where
  "getTTL type = ttl (getStrategy type)"

text \<open>The data object of an invalidation; \<open>None\<close> for a field is \<open>undefined\<close>.\<close>

record inv_data =
  userId :: "string option"
  cloudpcId :: "string option"

text \<open>\<open>getInvalidationPatterns(operation, data)\<close>. The argument \<open>data\<close> is
  \<open>None\<close> when the caller passes \<open>null\<close>; reading \<open>data.userId\<close> then throws.\<close>

definition getInvalidationPatterns :: "string \<Rightarrow> inv_data option \<Rightarrow> js_error + string list" where
  "getInvalidationPatterns operation data =
     (if operation = ''userUpdated'' then
        (case data of None \<Rightarrow> Inl TypeError
         | Some d \<Rightarrow> Inr [generateKey ''user'' [userId d], generateKey ''session'' [userId d]])
      else if operation = ''cloudpcChanged'' then
        (case data of None \<Rightarrow> Inl TypeError
         | Some d \<Rightarrow> Inr [generateKey ''cloudpc'' [], generateKey ''cloudpc'' [cloudpcId d],
                          generateKey ''stats'' []])
      else if operation = ''configUpdated'' then Inr [generateKey ''config'' []]
      else if operation = ''userLogin'' then
        (case data of None \<Rightarrow> Inl TypeError | Some d \<Rightarrow> Inr [generateKey ''session'' [userId d]])
      else if operation = ''userLogout'' then
        (case data of None \<Rightarrow> Inl TypeError | Some d \<Rightarrow> Inr [generateKey ''session'' [userId d]])
      else Inr [generateKey operation []])"

text \<open>\<open>getAdaptiveTTL(type, data)\<close>. The products \<open>baseTTL * 0.5\<close> and
  \<open>baseTTL * 1.5\<close> are exact in double precision for the integer TTLs of the table,
  so they are taken over the reals. An \<open>undefined\<close> base TTL stays undefined (the
  source computes NaN; this needs \<open>api\<close> to be an inherited name, which it is not).\<close>

definition getAdaptiveTTL :: "string \<Rightarrow> jsvalue \<Rightarrow> js_error + int option" where
  "getAdaptiveTTL type data =
     (let baseTTL = getTTL type in
      if type = ''api'' then
        (case stringify_length data of
           Inl e \<Rightarrow> Inl e
         | Inr dataSize \<Rightarrow>
             if dataSize > 10000 then Inr (map_option (\<lambda>b. \<lfloor>real_of_int b * 0.5\<rfloor>) baseTTL)
             else if dataSize < 1000 then Inr (map_option (\<lambda>b. \<lfloor>real_of_int b * 1.5\<rfloor>) baseTTL)
             else Inr baseTTL)
      else Inr baseTTL)"


section \<open>RedisManager\<close>

text \<open>
  The Redis client and server are outside the repository. The store is a list of
  entries; a stored text is kept as the JSON value it denotes (\<open>JSON.parse\<close> of
  \<open>JSON.stringify v\<close> is \<open>v\<close>), or \<open>None\<close> for a text that \<open>JSON.parse\<close> rejects
  (the client writes an \<open>undefined\<close> argument as the empty text). Expiry is recorded,
  not run: no entry disappears by itself. A call of the client may raise (time-out,
  connection loss); \<open>faults\<close> is the schedule of the coming calls, \<open>True\<close> for a
  call that raises, and a call beyond the schedule succeeds.
\<close>

record entry =
  stored :: "json option"
  expires :: "int option"

record client =
  kv :: "(string \<times> entry) list"
  faults :: "bool list"

record RedisManager =
  redis :: "client option"
  isConnected :: bool

definition attempt :: "client \<Rightarrow> bool \<times> client" where
  "attempt c = (case faults c of [] \<Rightarrow> (False, c) | f # fs \<Rightarrow> (f, c\<lparr>faults := fs\<rparr>))"

definition getClient :: "RedisManager \<Rightarrow> js_error + client" where
  "getClient r =
     (case redis r of
        None \<Rightarrow> Inl StoreError
      | Some c \<Rightarrow> if \<not> isConnected r then Inl StoreError else Inr c)"

text \<open>\<open>set(key, value, ttl = 3600)\<close>: the default applies to an \<open>undefined\<close> ttl.\<close>

definition RedisManager_set :: "string \<Rightarrow> jsvalue \<Rightarrow> int option \<Rightarrow> RedisManager \<Rightarrow> bool \<times> RedisManager" where
  "RedisManager_set key v ttl_arg r =
     (let ttl = (case ttl_arg of None \<Rightarrow> 3600 | Some t \<Rightarrow> t) in
      case getClient r of
        Inl e \<Rightarrow> (False, r)
      | Inr c \<Rightarrow>
          (case attempt c of
             (True, c') \<Rightarrow> (False, r\<lparr>redis := Some c'\<rparr>)
           | (False, c') \<Rightarrow>
               (True, r\<lparr>redis := Some (c'\<lparr>kv :=
                  Map_set key \<lparr>stored = v, expires = (if ttl > 0 then Some ttl else None)\<rparr> (kv c')\<rparr>)\<rparr>)))"

definition RedisManager_get :: "string \<Rightarrow> RedisManager \<Rightarrow> json \<times> RedisManager" where
  "RedisManager_get key r =
     (case getClient r of
        Inl e \<Rightarrow> (JNull, r)
      | Inr c \<Rightarrow>
          (case attempt c of
             (True, c') \<Rightarrow> (JNull, r\<lparr>redis := Some c'\<rparr>)
           | (False, c') \<Rightarrow>
               (case Map_get key (kv c') of
                  None \<Rightarrow> (JNull, r\<lparr>redis := Some c'\<rparr>)
                | Some e \<Rightarrow>
                    (case stored e of
                       None \<Rightarrow> (JNull, r\<lparr>redis := Some c'\<rparr>)
                     | Some v \<Rightarrow> (v, r\<lparr>redis := Some c'\<rparr>)))))"

text \<open>\<open>del\<close> returns the number of keys removed, or \<open>false\<close> after an error.\<close>

datatype del_result = Deleted nat | Failed

definition RedisManager_del :: "string \<Rightarrow> RedisManager \<Rightarrow> del_result \<times> RedisManager" where
  "RedisManager_del key r =
     (case getClient r of
        Inl e \<Rightarrow> (Failed, r)
      | Inr c \<Rightarrow>
          (case attempt c of
             (True, c') \<Rightarrow> (Failed, r\<lparr>redis := Some c'\<rparr>)
           | (False, c') \<Rightarrow>
               (Deleted (if Map_has key (kv c') then 1 else 0),
                r\<lparr>redis := Some (c'\<lparr>kv := Map_delete key (kv c')\<rparr>)\<rparr>)))"

text \<open>The patterns of the \<open>KEYS\<close> command, with \<open>*\<close> and \<open>?\<close>; character classes
  and escapes are outside the model.\<close>

fun glob :: "string \<Rightarrow> string \<Rightarrow> bool" where
  "glob [] s = (s = [])"
| "glob (p # ps) [] = (p = CHR ''*'' \<and> glob ps [])"
| "glob (p # ps) (c # cs) =
     (if p = CHR ''*'' then glob ps (c # cs) \<or> glob (p # ps) cs
      else if p = CHR ''?'' then glob ps cs
      else p = c \<and> glob ps cs)"

definition RedisManager_delPattern :: "string \<Rightarrow> RedisManager \<Rightarrow> nat \<times> RedisManager" where
  "RedisManager_delPattern pattern r =
     (case getClient r of
        Inl e \<Rightarrow> (0, r)
      | Inr c \<Rightarrow>
          (case attempt c of
             (True, c') \<Rightarrow> (0, r\<lparr>redis := Some c'\<rparr>)
           | (False, c') \<Rightarrow>
               (let keys = filter (glob pattern) (map fst (kv c')) in
                if length keys > 0 then
                  (case attempt c' of
                     (True, c'') \<Rightarrow> (0, r\<lparr>redis := Some c''\<rparr>)
                   | (False, c'') \<Rightarrow>
                       (length keys,
                        r\<lparr>redis := Some (c''\<lparr>kv := filter (\<lambda>p. fst p \<notin> set keys) (kv c'')\<rparr>)\<rparr>))
                else (length keys, r\<lparr>redis := Some c'\<rparr>))))"

section \<open>CacheService\<close>

text \<open>The monitoring service and the logger only observe; their calls are left out.\<close>

record cache_metrics =
  hits :: nat
  misses :: nat
  sets :: nat
  deletes :: nat
  errors :: nat

record CacheService =
  redisManager :: RedisManager
  metrics :: cache_metrics

definition count_error :: "CacheService \<Rightarrow> CacheService" where
  "count_error st = st\<lparr>metrics := (metrics st)\<lparr>errors := errors (metrics st) + 1\<rparr>\<rparr>"

text \<open>\<open>customTTL || getAdaptiveTTL(type, data)\<close>: \<open>customTTL\<close> is \<open>None\<close> for
  \<open>null\<close>, the default; \<open>null\<close> and \<open>0\<close> are falsy.\<close>

definition truthy :: "int option \<Rightarrow> bool" where
  "truthy t = (case t of None \<Rightarrow> False | Some n \<Rightarrow> n \<noteq> 0)"

definition CacheService_set ::
  "string \<Rightarrow> string \<Rightarrow> jsvalue \<Rightarrow> int option \<Rightarrow> CacheService \<Rightarrow> bool \<times> CacheService" where
  "CacheService_set type key data customTTL st =
     (let cacheKey = generateKey type [Some key] in
      case (if truthy customTTL then Inr customTTL else getAdaptiveTTL type data) of
        Inl e \<Rightarrow> (False, count_error st)
      | Inr ttl' \<Rightarrow>
          (case RedisManager_set cacheKey data ttl' (redisManager st) of
             (success, r') \<Rightarrow>
               if success
               then (True, st\<lparr>redisManager := r',
                               metrics := (metrics st)\<lparr>sets := sets (metrics st) + 1\<rparr>\<rparr>)
               else (False, st\<lparr>redisManager := r'\<rparr>)))"

definition CacheService_get :: "string \<Rightarrow> string \<Rightarrow> CacheService \<Rightarrow> json \<times> CacheService" where
  "CacheService_get type key st =
     (let cacheKey = generateKey type [Some key] in
      case RedisManager_get cacheKey (redisManager st) of
        (data, r') \<Rightarrow>
          if data \<noteq> JNull
          then (data, st\<lparr>redisManager := r',
                          metrics := (metrics st)\<lparr>hits := hits (metrics st) + 1\<rparr>\<rparr>)
          else (JNull, st\<lparr>redisManager := r',
                           metrics := (metrics st)\<lparr>misses := misses (metrics st) + 1\<rparr>\<rparr>))"

definition CacheService_delete :: "string \<Rightarrow> string \<Rightarrow> CacheService \<Rightarrow> del_result \<times> CacheService" where
  "CacheService_delete type key st =
     (let cacheKey = generateKey type [Some key] in
      case RedisManager_del cacheKey (redisManager st) of
        (result, r') \<Rightarrow>
          if (case result of Deleted n \<Rightarrow> n > 0 | Failed \<Rightarrow> False)
          then (result, st\<lparr>redisManager := r',
                            metrics := (metrics st)\<lparr>deletes := deletes (metrics st) + 1\<rparr>\<rparr>)
          else (result, st\<lparr>redisManager := r'\<rparr>))"

text \<open>The loop of \<open>invalidate\<close>; \<open>totalDeleted += false\<close> adds nothing.\<close>

fun invalidate_loop :: "string list \<Rightarrow> nat \<Rightarrow> RedisManager \<Rightarrow> nat \<times> RedisManager" where
  "invalidate_loop [] totalDeleted r = (totalDeleted, r)"
| "invalidate_loop (pattern # patterns) totalDeleted r =
     (if CHR ''*'' \<in> set pattern then
        (case RedisManager_delPattern pattern r of
           (deleted, r') \<Rightarrow> invalidate_loop patterns (totalDeleted + deleted) r')
      else
        (case RedisManager_del pattern r of
           (result, r') \<Rightarrow>
             invalidate_loop patterns
               (totalDeleted + (case result of Deleted n \<Rightarrow> n | Failed \<Rightarrow> 0)) r'))"

definition CacheService_invalidate ::
  "string \<Rightarrow> inv_data option \<Rightarrow> CacheService \<Rightarrow> nat \<times> CacheService" where
  "CacheService_invalidate operation data st =
     (case getInvalidationPatterns operation data of
        Inl e \<Rightarrow> (0, count_error st)
      | Inr patterns \<Rightarrow>
          (case invalidate_loop patterns 0 (redisManager st) of
             (totalDeleted, r') \<Rightarrow> (totalDeleted, st\<lparr>redisManager := r'\<rparr>)))"

text \<open>A store that is connected, holds the given entries and has no fault scheduled,
  and a service over it with all counters at zero.\<close>

definition store_of :: "(string \<times> entry) list \<Rightarrow> bool list \<Rightarrow> RedisManager" where
  "store_of es fs = \<lparr>redis = Some \<lparr>kv = es, faults = fs\<rparr>, isConnected = True\<rparr>"

definition service_of :: "RedisManager \<Rightarrow> CacheService" where
  "service_of r =
     \<lparr>redisManager = r, metrics = \<lparr>hits = 0, misses = 0, sets = 0, deletes = 0, errors = 0\<rparr>\<rparr>"

definition healthy :: "RedisManager \<Rightarrow> bool" where
  "healthy r = (case redis r of None \<Rightarrow> False | Some c \<Rightarrow> isConnected r \<and> faults c = [])"

definition entries_of :: "CacheService \<Rightarrow> (string \<times> entry) list" where
  "entries_of st = (case redis (redisManager st) of None \<Rightarrow> [] | Some c \<Rightarrow> kv c)"

text \<open>\<open>raises r\<close>: the next call of the store raises inside the RedisManager method
  (no client, not connected, or a fault is due). \<open>unreachable r\<close>: \<open>getClient\<close>
  throws, so every call raises.\<close>

definition raises :: "RedisManager \<Rightarrow> bool" where
  "raises r = (case getClient r of Inl e \<Rightarrow> True | Inr c \<Rightarrow> fst (attempt c))"

definition unreachable :: "RedisManager \<Rightarrow> bool" where
  "unreachable r = (case getClient r of Inl e \<Rightarrow> True | Inr c \<Rightarrow> False)"

text \<open>Stores used as concrete inputs below.\<close>

definition sample_entry :: entry where
  "sample_entry = \<lparr>stored = Some (JNum 1), expires = Some 7200\<rparr>"

definition offline_store :: RedisManager where
  "offline_store = \<lparr>redis = Some \<lparr>kv = [(''user:u1'', sample_entry)], faults = []\<rparr>,
                     isConnected = False\<rparr>"

section \<open>Strings of the terminal\<close>

text \<open>\<open>trim\<close> removes white space and line terminators at both ends; below 256 these
  are the code units 9 to 13, 32 and 160. \<open>toLowerCase\<close> maps \<open>A\<close> to \<open>Z\<close> and the
  capital letters 192 to 222 (but not the sign 215) to the letter 32 above.\<close>

definition is_space :: "char \<Rightarrow> bool" where
  "is_space c = (let n = (of_char c :: nat) in (9 \<le> n \<and> n \<le> 13) \<or> n = 32 \<or> n = 160)"

definition trim :: "string \<Rightarrow> string" where
  "trim s = rev (dropWhile is_space (rev (dropWhile is_space s)))"

definition lower_char :: "char \<Rightarrow> char" where
  "lower_char c =
     (let n = (of_char c :: nat) in
      if (65 \<le> n \<and> n \<le> 90) \<or> (192 \<le> n \<and> n \<le> 222 \<and> n \<noteq> 215) then char_of (n + 32) else c)"

definition toLowerCase :: "string \<Rightarrow> string" where
  "toLowerCase s = map lower_char s"

definition startsWith :: "string \<Rightarrow> string \<Rightarrow> bool" where
  "startsWith s p = (take (length p) s = p)"

definition substring :: "string \<Rightarrow> nat \<Rightarrow> string" where
  "substring s n = drop n s"

text \<open>
  The conversion of a value to a string in a template literal. An array is joined with
  commas, \<open>null\<close> elements giving the empty string. An object parsed from JSON has no
  callable member of its own: without an own \<open>toString\<close> the inherited one gives
  \<open>[object Object]\<close>; with an own \<open>toString\<close> neither that member nor \<open>valueOf\<close>
  (own, or inherited and returning the object) yields a primitive, and the conversion
  throws a TypeError.
\<close>

fun String_of :: "json \<Rightarrow> js_error + string"
  and String_of_elements :: "json list \<Rightarrow> js_error + string list" where
  "String_of JNull = Inr ''null''"
| "String_of (JBool b) = Inr (if b then ''true'' else ''false'')"
| "String_of (JNum i) = Inr (show_int (sint i))"
| "String_of (JStr s) = Inr s"
| "String_of (JArr vs) =
     (case String_of_elements vs of Inl err \<Rightarrow> Inl err | Inr texts \<Rightarrow> Inr (join '','' texts))"
| "String_of (JObj ms) =
     (if ''toString'' \<in> set (map fst ms) then Inl TypeError else Inr ''[object Object]'')"
| "String_of_elements [] = Inr []"
| "String_of_elements (v # vs) =
     (case (if v = JNull then Inr [] else String_of v) of
        Inl err \<Rightarrow> Inl err
      | Inr text \<Rightarrow>
          (case String_of_elements vs of
             Inl err \<Rightarrow> Inl err
           | Inr texts \<Rightarrow> Inr (text # texts)))"

definition String_of_value :: "jsvalue \<Rightarrow> js_error + string" where
  "String_of_value v = (case v of None \<Rightarrow> Inr ''undefined'' | Some j \<Rightarrow> String_of j)"

text \<open>Reading a property by destructuring or with a dot. On \<open>null\<close> and \<open>undefined\<close>
  it throws; on an object parsed from JSON it finds the own property, with the value of
  its last definition; the names read
  by the handlers (\<open>type\<close>, \<open>payload\<close>, \<open>command\<close>, \<open>sessionId\<close>, \<open>cols\<close>,
  \<open>rows\<close>, \<open>action\<close>) are on no prototype, so on every other value the result is
  \<open>undefined\<close>.\<close>

definition get_prop :: "jsvalue \<Rightarrow> string \<Rightarrow> js_error + jsvalue" where
  "get_prop v k =
     (case v of
        None \<Rightarrow> Inl TypeError
      | Some JNull \<Rightarrow> Inl TypeError
      | Some (JObj ms) \<Rightarrow> Inr (map_of (rev ms) k)
      | Some _ \<Rightarrow> Inr None)"

section \<open>CloudPCWebSocketService: data\<close>

text \<open>
  What a handler reads from the runtime when it runs: the clock (\<open>Date.now()\<close>, in
  milliseconds), the text \<open>new Date().toString()\<close> gives for it, the whole seconds of
  \<open>process.uptime()\<close>, and the identifier \<open>generateSessionId()\<close> would return.
\<close>

record env =
  now :: nat
  date_text :: string
  uptime :: nat
  fresh_sessionId :: string

text \<open>
  The result of a terminal command. The string literals of the source that contain
  Chinese text are named, not spelled: \<open>Lit\<close> is such a literal, \<open>DirCreated d\<close>,
  \<open>FileDeleted f\<close> and \<open>NotFound c\<close> are the template literals of \<open>mkdir\<close>, of
  \<open>rm\<close> and of the last line of \<open>executeCommand\<close>
  (\<open>bash: ${command}: ...\<close>, command not found, with the hint to type \<open>help\<close>).
  \<open>Obj t m\<close> is the object \<open>{type: t, message: m}\<close>, and \<open>Inherited n\<close> is the
  member \<open>n\<close> of \<open>Object.prototype\<close>.
\<close>

datatype literal =
    HelpText | SystemInfoText | NoHistoryText | ReadmeText
  | CopyDoneText | MoveDoneText | ChmodDoneText | SudoText
  | ClearText | ExitText | LogoutText

datatype cmd_output =
    Str string
  | Lit literal
  | DirCreated string
  | FileDeleted string
  | NotFound string
  | Obj string literal
  | Inherited string

type_synonym ws = nat
type_synonym ref = nat

datatype ready_state = CONNECTING | OPEN | CLOSING | CLOSED

record connection_info =
  conn_userId :: jsvalue
  conn_cloudPCId :: string
  conn_sessionId :: string
  connectedAt :: nat
  isAlive :: bool
  userAgent :: "string option"

record command_entry =
  cmd_command :: jsvalue
  cmd_timestamp :: nat
  cmd_userId :: jsvalue

record output_entry =
  out_command :: jsvalue
  out_output :: cmd_output
  out_timestamp :: nat

record terminal_session =
  term_id :: string
  term_cloudPCId :: string
  term_userId :: jsvalue
  createdAt :: nat
  isActive :: bool
  commands :: "command_entry list"
  outputs :: "output_entry list"
  resizeInfo :: "(jsvalue \<times> jsvalue) option"

text \<open>The field \<open>outputs\<close> is the array \<open>output\<close> of the source.
  The messages the server sends follow, one constructor for each \<open>type\<close>.\<close>

datatype server_message =
    Connection_established string string nat
  | Terminal_welcome string string
  | Terminal_output jsvalue jsvalue cmd_output nat
  | Terminal_error nat
  | Terminal_resized jsvalue jsvalue jsvalue nat
  | Clipboard_synced jsvalue jsvalue nat
  | Mouse_event_ack nat
  | Keyboard_event_ack nat
  | Pong_message nat
  | Error_message nat

fun message_type :: "server_message \<Rightarrow> string" where
  "message_type (Connection_established _ _ _) = ''connection_established''"
| "message_type (Terminal_welcome _ _) = ''terminal_welcome''"
| "message_type (Terminal_output _ _ _ _) = ''terminal_output''"
| "message_type (Terminal_error _) = ''terminal_error''"
| "message_type (Terminal_resized _ _ _ _) = ''terminal_resized''"
| "message_type (Clipboard_synced _ _ _) = ''clipboard_synced''"
| "message_type (Mouse_event_ack _) = ''mouse_event_ack''"
| "message_type (Keyboard_event_ack _) = ''keyboard_event_ack''"
| "message_type (Pong_message _) = ''pong''"
| "message_type (Error_message _) = ''error''"

text \<open>
  A socket of the \<open>ws\<close> library: its state, the frames sent on it, the code of a
  \<open>close\<close> call, the pings sent, whether the handlers of \<open>handleConnection\<close> are
  attached, and the property \<open>ws.connectionInfo\<close>. The connection record is one
  object, referred to by \<open>ws.connectionInfo\<close> and by the value of the \<open>connections\<close>
  map; \<open>objects\<close> holds these records and a reference is an index into it.
\<close>

record socket =
  readyState :: ready_state
  sent :: "server_message list"
  closeCode :: "nat option"
  pings :: nat
  listening :: bool
  connectionInfo :: "ref option"

record service =
  connections :: "(ws \<times> ref) list"
  cloudPCConnections :: "(string \<times> ws list) list"
  terminalSessions :: "(string \<times> terminal_session) list"
  objects :: "connection_info list"
  sockets :: "ws \<Rightarrow> socket"

text \<open>A JavaScript \<open>Set\<close> as a list without repetition, in insertion order.\<close>

definition Set_add :: "'a \<Rightarrow> 'a list \<Rightarrow> 'a list" where
  "Set_add x xs = (if x \<in> set xs then xs else xs @ [x])"

definition Set_delete :: "'a \<Rightarrow> 'a list \<Rightarrow> 'a list" where
  "Set_delete x xs = filter (\<lambda>y. y \<noteq> x) xs"

definition deref :: "service \<Rightarrow> ref \<Rightarrow> connection_info option" where
  "deref s r = (if r < length (objects s) then Some (objects s ! r) else None)"

definition info_of :: "service \<Rightarrow> ws \<Rightarrow> connection_info option" where
  "info_of s ws = (case connectionInfo (sockets s ws) of None \<Rightarrow> None | Some r \<Rightarrow> deref s r)"

definition update_socket :: "ws \<Rightarrow> (socket \<Rightarrow> socket) \<Rightarrow> service \<Rightarrow> service" where
  "update_socket ws f s = s\<lparr>sockets := (sockets s)(ws := f (sockets s ws))\<rparr>"

text \<open>\<open>ws.close(code, reason)\<close> on an open socket starts the closing handshake;
  \<open>ws.terminate()\<close> destroys the connection; both leave the \<open>close\<close> event to come.\<close>

definition ws_close :: "nat \<Rightarrow> ws \<Rightarrow> service \<Rightarrow> service" where
  "ws_close code ws s =
     (if readyState (sockets s ws) = OPEN
      then update_socket ws (\<lambda>k. k\<lparr>readyState := CLOSING, closeCode := Some code\<rparr>) s
      else s)"

definition ws_terminate :: "ws \<Rightarrow> service \<Rightarrow> service" where
  "ws_terminate ws s =
     (if readyState (sockets s ws) = CLOSED then s
      else update_socket ws (\<lambda>k. k\<lparr>readyState := CLOSING\<rparr>) s)"

definition ws_ping :: "ws \<Rightarrow> service \<Rightarrow> service" where
  "ws_ping ws s = update_socket ws (\<lambda>k. k\<lparr>pings := pings k + 1\<rparr>) s"

text \<open>\<open>sendMessage\<close> sends on an open socket only; \<open>ws.send\<close> on an open socket
  does not throw.\<close>

definition sendMessage :: "ws \<Rightarrow> server_message \<Rightarrow> service \<Rightarrow> service" where
  "sendMessage ws message s =
     (if readyState (sockets s ws) = OPEN
      then update_socket ws (\<lambda>k. k\<lparr>sent := sent k @ [message]\<rparr>) s
      else s)"

section \<open>The simulated terminal\<close>

definition listDirectory :: string where
  \<open>listDirectory =
     ''total 16\<newline>drwxr-xr-x 2 cloudpc cloudpc 4096 Jan 15 10:00 Desktop\<newline>drwxr-xr-xr-x 2 cloudpc cloudpc 4096 Jan 15 10:00 Documents  \<newline>drwxr-xr-xr-x 2 cloudpc cloudpc 4096 Jan 15 10:00 Downloads\<newline>-rw-r--r-- 1 cloudpc cloudpc 1234 Jan 15 10:00 readme.txt\<newline>-rw-r--r-- 1 cloudpc cloudpc 5678 Jan 15 10:00 config.json''\<close>

definition listProcesses :: string where
  \<open>listProcesses =
     ''  PID TTY          TIME CMD\<newline>    1 ?        00:00:01 systemd\<newline>  1234 ?        00:00:00 cloudpc-service\<newline>  5678 pts/0    00:00:00 bash\<newline>  9012 pts/0    00:00:00 web-terminal''\<close>

definition showDiskUsage :: string where
  \<open>showDiskUsage =
     ''Filesystem     1K-blocks    Used Available Use% Mounted on\<newline>/dev/sda1       104857600 46213120  58644640  45% /\<newline>tmpfs            8388608         0   8388608   0% /dev/shm\<newline>/dev/sdb1       209715200 125829120  83886080  60% /data''\<close>

definition showMemoryUsage :: string where
  \<open>showMemoryUsage =
     ''              total        used        free      shared  buff/cache   available\<newline>Mem:        8388608     4404019      987654      123456     2994935     3772159\<newline>Swap:       2097152           0     2097152''\<close>

definition config_json :: string where
  \<open>config_json =
     ''{\<newline>  "cloudpc": {\<newline>    "instance_id": "cloudpc_123456789",\<newline>    "os": "Ubuntu 20.04",\<newline>    "cpu": 4,\<newline>    "memory": 8,\<newline>    "storage": 100,\<newline>    "status": "running"\<newline>  }\<newline>}''\<close>

definition log_txt :: string where
  \<open>log_txt =
     ''[2024-01-15 10:00:00] System started\<newline>[2024-01-15 10:05:00] User logged in\<newline>[2024-01-15 10:10:00] Terminal session started''\<close>

definition getUptime :: "env \<Rightarrow> string" where
  "getUptime e =
     (let days = uptime e div 86400;
          hours = (uptime e mod 86400) div 3600;
          minutes = (uptime e mod 3600) div 60
      in show_nat days @ '' days, '' @ show_nat hours @ '' hours, '' @ show_nat minutes @ '' minutes'')"

text \<open>\<open>getCommandHistory\<close>: the last ten commands, numbered from 1. The template
  literal of a line throws when the command has no conversion to a string.\<close>

fun number_lines :: "nat \<Rightarrow> command_entry list \<Rightarrow> js_error + string list" where
  "number_lines index [] = Inr []"
| "number_lines index (cmd # cmds) =
     (case String_of_value (cmd_command cmd) of
        Inl err \<Rightarrow> Inl err
      | Inr text \<Rightarrow>
          (case number_lines (index + 1) cmds of
             Inl err \<Rightarrow> Inl err
           | Inr lines \<Rightarrow> Inr ((show_nat (index + 1) @ ''  '' @ text) # lines)))"

definition getCommandHistory :: "terminal_session \<Rightarrow> js_error + cmd_output" where
  "getCommandHistory session =
     (case number_lines 0 (drop (length (commands session) - 10) (commands session)) of
        Inl err \<Rightarrow> Inl err
      | Inr lines \<Rightarrow>
          (let recentCommands = join ''\<newline>'' lines
           in Inr (if recentCommands = [] then Lit NoHistoryText else Str recentCommands)))"

definition readFile :: "string \<Rightarrow> cmd_output" where
  "readFile fileName =
     (if fileName = ''readme.txt'' then Lit ReadmeText
      else if fileName = ''config.json'' then Str config_json
      else if fileName = ''log.txt'' then Str log_txt
      else if fileName \<in> set Object_prototype then Inherited fileName
      else Str (''cat: '' @ fileName @ '': No such file or directory''))"

text \<open>The own keys of the object \<open>commands\<close> and the value under each. The object
  literal is evaluated as a whole before any lookup; \<open>commandHistory\<close> is the value
  \<open>getCommandHistory(session)\<close> has returned for the key \<open>history\<close>.\<close>

definition command_names :: "string list" where
  "command_names =
     [''help'', ''clear'', ''whoami'', ''pwd'', ''ls'', ''dir'', ''ps'', ''top'', ''systeminfo'',
      ''ipconfig'', ''ifconfig'', ''netstat'', ''date'', ''uname'', ''uptime'', ''df'', ''free'',
      ''hostname'', ''history'', ''exit'', ''logout'']"

definition commands_table :: "env \<Rightarrow> cmd_output \<Rightarrow> string \<Rightarrow> cmd_output option" where
  "commands_table e commandHistory name =
     (if name = ''help'' then Some (Lit HelpText)
      else if name = ''clear'' then Some (Obj ''clear'' ClearText)
      else if name = ''whoami'' then Some (Str ''cloudpc'')
      else if name = ''pwd'' then Some (Str ''/home/cloudpc'')
      else if name = ''ls'' then Some (Str listDirectory)
      else if name = ''dir'' then Some (Str listDirectory)
      else if name = ''ps'' then Some (Str listProcesses)
      else if name = ''top'' then Some (Lit SystemInfoText)
      else if name = ''systeminfo'' then Some (Lit SystemInfoText)
      else if name = ''ipconfig'' then Some (Str ''Windows IP Configuration'')
      else if name = ''ifconfig'' then Some (Str ''Network configuration'')
      else if name = ''netstat'' then Some (Str ''Active connections'')
      else if name = ''date'' then Some (Str (date_text e))
      else if name = ''uname'' then Some (Str ''CloudPC Linux 4.19.0'')
      else if name = ''uptime'' then Some (Str (getUptime e))
      else if name = ''df'' then Some (Str showDiskUsage)
      else if name = ''free'' then Some (Str showMemoryUsage)
      else if name = ''hostname'' then Some (Str ''cloudpc-instance'')
      else if name = ''history'' then Some commandHistory
      else if name = ''exit'' then Some (Obj ''exit'' ExitText)
      else if name = ''logout'' then Some (Obj ''exit'' LogoutText)
      else None)"

text \<open>A string is truthy when it is not empty; every other result is an object or a
  function.\<close>

definition truthy_output :: "cmd_output \<Rightarrow> bool" where
  "truthy_output v = (case v of Str s \<Rightarrow> s \<noteq> [] | _ \<Rightarrow> True)"

text \<open>\<open>commands[trimmedCommand]\<close>, with the members inherited from the prototype.\<close>

definition commands_lookup :: "env \<Rightarrow> cmd_output \<Rightarrow> string \<Rightarrow> cmd_output option" where
  "commands_lookup e commandHistory name =
     (case commands_table e commandHistory name of
        Some v \<Rightarrow> Some v
      | None \<Rightarrow> if name \<in> set Object_prototype then Some (Inherited name) else None)"

text \<open>
  \<open>executeCommand(command, session)\<close>. \<open>command.trim()\<close> throws unless
  \<open>command\<close> is a string. The object \<open>commands\<close> is built next, on every call and
  before the prefixes are tried, and building it calls \<open>getCommandHistory(session)\<close>:
  when that throws, \<open>executeCommand\<close> throws, whatever the command is.
\<close>

definition executeCommand :: "env \<Rightarrow> jsvalue \<Rightarrow> terminal_session \<Rightarrow> js_error + cmd_output" where
  "executeCommand e command session =
     (case command of
        Some (JStr c) \<Rightarrow>
          (let trimmedCommand = toLowerCase (trim c) in
           case getCommandHistory session of
             Inl err \<Rightarrow> Inl err
           | Inr commandHistory \<Rightarrow>
               if startsWith trimmedCommand ''cat '' then Inr (readFile (trim (substring trimmedCommand 4)))
               else if startsWith trimmedCommand ''echo '' then Inr (Str (trim (substring trimmedCommand 5)))
               else if startsWith trimmedCommand ''mkdir '' then Inr (DirCreated (trim (substring trimmedCommand 6)))
               else if startsWith trimmedCommand ''rm '' then Inr (FileDeleted (trim (substring trimmedCommand 3)))
               else if startsWith trimmedCommand ''cp '' then Inr (Lit CopyDoneText)
               else if startsWith trimmedCommand ''mv '' then Inr (Lit MoveDoneText)
               else if startsWith trimmedCommand ''chmod '' then Inr (Lit ChmodDoneText)
               else if startsWith trimmedCommand ''sudo '' then Inr (Lit SudoText)
               else
                 (case commands_lookup e commandHistory trimmedCommand of
                    Some v \<Rightarrow>
                      if truthy_output v then Inr v
                      else if trimmedCommand = [] then Inr (Str [])
                      else Inr (NotFound c)
                  | None \<Rightarrow>
                      if trimmedCommand = [] then Inr (Str [])
                      else Inr (NotFound c)))
      | _ \<Rightarrow> Inl TypeError)"

section \<open>CloudPCWebSocketService: handlers\<close>

text \<open>The upgrade request: the query parameters of its URL (\<open>None\<close> when
  \<open>new URL\<close> throws) and the user agent header.\<close>

record request =
  url :: "(string \<times> string) list option"
  user_agent :: "string option"

definition searchParams_get :: "(string \<times> string) list \<Rightarrow> string \<Rightarrow> string option" where
  "searchParams_get params name = map_of params name"

definition put_session :: "string \<Rightarrow> terminal_session \<Rightarrow> service \<Rightarrow> service" where
  "put_session sid session s = s\<lparr>terminalSessions := Map_set sid session (terminalSessions s)\<rparr>"

definition initializeTerminalSession ::
  "env \<Rightarrow> ws \<Rightarrow> string \<Rightarrow> string \<Rightarrow> service \<Rightarrow> js_error option \<times> service" where
  "initializeTerminalSession e ws cloudPCId sessionId s =
     (case info_of s ws of
        None \<Rightarrow> (Some TypeError, s)
      | Some info \<Rightarrow>
          (let terminalSession =
                 \<lparr>term_id = sessionId, term_cloudPCId = cloudPCId, term_userId = conn_userId info,
                  createdAt = now e, isActive = True, commands = [], outputs = [],
                  resizeInfo = None\<rparr>
           in (None, sendMessage ws (Terminal_welcome sessionId cloudPCId)
                       (put_session sessionId terminalSession s))))"

text \<open>
  \<open>handleConnection(ws, req)\<close>. \<open>verify\<close> is \<open>jwt.verify\<close> with the signing secret:
  \<open>None\<close> when it throws, otherwise the claims of the token. An exception outside
  the inner \<open>try\<close> closes the socket with 1011. Attaching the listeners is recorded in
  \<open>listening\<close>.
\<close>

definition handleConnection ::
  "env \<Rightarrow> (string \<Rightarrow> (string \<times> json) list option) \<Rightarrow> ws \<Rightarrow> request \<Rightarrow> service \<Rightarrow> service" where
  "handleConnection e verify ws req s =
     (case url req of
        None \<Rightarrow> ws_close 1011 ws s
      | Some params \<Rightarrow>
          (let token = searchParams_get params ''token'';
               cloudPCId = searchParams_get params ''cloudPCId'';
               sessionId = (case searchParams_get params ''sessionId'' of
                              None \<Rightarrow> fresh_sessionId e
                            | Some sid \<Rightarrow> if sid = [] then fresh_sessionId e else sid)
           in case (token, cloudPCId) of
                (Some t, Some cid) \<Rightarrow>
                  if t = [] \<or> cid = [] then ws_close 1008 ws s
                  else
                    (case verify t of
                       None \<Rightarrow> ws_close 1008 ws s
                     | Some decoded \<Rightarrow>
                         (let info = \<lparr>conn_userId = map_of decoded ''id'', conn_cloudPCId = cid,
                                      conn_sessionId = sessionId, connectedAt = now e,
                                      isAlive = True, userAgent = user_agent req\<rparr>;
                              r = length (objects s);
                              s1 = update_socket ws (\<lambda>k. k\<lparr>connectionInfo := Some r\<rparr>)
                                     (s\<lparr>objects := objects s @ [info]\<rparr>);
                              s2 = s1\<lparr>connections := Map_set ws r (connections s1)\<rparr>;
                              s3 = (if \<not> Map_has cid (cloudPCConnections s2)
                                    then s2\<lparr>cloudPCConnections := Map_set cid [] (cloudPCConnections s2)\<rparr>
                                    else s2);
                              s4 = (case Map_get cid (cloudPCConnections s3) of
                                      None \<Rightarrow> s3
                                    | Some observers \<Rightarrow>
                                        s3\<lparr>cloudPCConnections :=
                                             Map_set cid (Set_add ws observers) (cloudPCConnections s3)\<rparr>);
                              s5 = sendMessage ws (Connection_established sessionId cid (now e)) s4;
                              s6 = update_socket ws (\<lambda>k. k\<lparr>listening := True\<rparr>) s5
                          in case initializeTerminalSession e ws cid sessionId s6 of
                               (None, s7) \<Rightarrow> s7
                             | (Some err, s7) \<Rightarrow> ws_close 1011 ws s7))
              | _ \<Rightarrow> ws_close 1008 ws s))"

text \<open>
  The handlers of a message return the exception they throw, if any, with the state
  reached at that point: what was written before the exception stays written.
\<close>

text \<open>\<open>this.terminalSessions.get(sessionId)\<close>: the keys of the map are strings, so
  only a string finds a session.\<close>

definition terminalSessions_get :: "jsvalue \<Rightarrow> service \<Rightarrow> (string \<times> terminal_session) option" where
  "terminalSessions_get sessionId s =
     (case sessionId of
        Some (JStr sid) \<Rightarrow>
          (case Map_get sid (terminalSessions s) of
             None \<Rightarrow> None
           | Some session \<Rightarrow> Some (sid, session))
      | _ \<Rightarrow> None)"

definition handleTerminalInput :: "env \<Rightarrow> ws \<Rightarrow> jsvalue \<Rightarrow> service \<Rightarrow> js_error option \<times> service" where
  "handleTerminalInput e ws payload s =
     (case (get_prop payload ''command'', get_prop payload ''sessionId'') of
        (Inr command, Inr sessionId) \<Rightarrow>
          (case terminalSessions_get sessionId s of
             None \<Rightarrow> (None, sendMessage ws (Terminal_error (now e)) s)
           | Some (sid, terminalSession) \<Rightarrow>
               (case info_of s ws of
                  None \<Rightarrow> (Some TypeError, s)
                | Some info \<Rightarrow>
                    (let session1 = terminalSession\<lparr>commands := commands terminalSession @
                           [\<lparr>cmd_command = command, cmd_timestamp = now e, cmd_userId = conn_userId info\<rparr>]\<rparr>
                     in case executeCommand e command session1 of
                          Inl err \<Rightarrow> (Some err, put_session sid session1 s)
                        | Inr out \<Rightarrow>
                            (let session2 = session1\<lparr>outputs := outputs session1 @
                                   [\<lparr>out_command = command, out_output = out, out_timestamp = now e\<rparr>]\<rparr>;
                                 session3 = (if length (commands session2) > 100
                                             then session2\<lparr>commands := tl (commands session2),
                                                           outputs := tl (outputs session2)\<rparr>
                                             else session2)
                             in (None, sendMessage ws (Terminal_output sessionId command out (now e))
                                         (put_session sid session3 s))))))
      | _ \<Rightarrow> (Some TypeError, s))"

definition handleTerminalResize :: "env \<Rightarrow> ws \<Rightarrow> jsvalue \<Rightarrow> service \<Rightarrow> js_error option \<times> service" where
  "handleTerminalResize e ws payload s =
     (case (get_prop payload ''cols'', get_prop payload ''rows'', get_prop payload ''sessionId'') of
        (Inr cols, Inr rows, Inr sessionId) \<Rightarrow>
          (case terminalSessions_get sessionId s of
             None \<Rightarrow> (None, s)
           | Some (sid, terminalSession) \<Rightarrow>
               (None, sendMessage ws (Terminal_resized sessionId cols rows (now e))
                        (put_session sid (terminalSession\<lparr>resizeInfo := Some (cols, rows)\<rparr>) s)))
      | _ \<Rightarrow> (Some TypeError, s))"

definition handleClipboardSync :: "env \<Rightarrow> ws \<Rightarrow> jsvalue \<Rightarrow> service \<Rightarrow> js_error option \<times> service" where
  "handleClipboardSync e ws payload s =
     (case (get_prop payload ''action'', get_prop payload ''sessionId'') of
        (Inr action, Inr sessionId) \<Rightarrow>
          (None, sendMessage ws (Clipboard_synced sessionId action (now e)) s)
      | _ \<Rightarrow> (Some TypeError, s))"

definition handleMouseEvent :: "env \<Rightarrow> ws \<Rightarrow> jsvalue \<Rightarrow> service \<Rightarrow> js_error option \<times> service" where
  "handleMouseEvent e ws payload s = (None, sendMessage ws (Mouse_event_ack (now e)) s)"

definition handleKeyboardEvent :: "env \<Rightarrow> ws \<Rightarrow> jsvalue \<Rightarrow> service \<Rightarrow> js_error option \<times> service" where
  "handleKeyboardEvent e ws payload s = (None, sendMessage ws (Keyboard_event_ack (now e)) s)"

text \<open>
  \<open>handleMessage(ws, data)\<close>. \<open>parsed\<close> is the outcome of
  \<open>JSON.parse(data.toString())\<close>: \<open>None\<close> when the body is not JSON and the parser
  throws. The body of the \<open>try\<close> is \<open>handleMessage_try\<close>, its \<open>switch\<close> is
  \<open>dispatch\<close>.
\<close>

definition dispatch :: "env \<Rightarrow> ws \<Rightarrow> jsvalue \<Rightarrow> jsvalue \<Rightarrow> service \<Rightarrow> js_error option \<times> service" where
  "dispatch e ws type payload s =
     (if type = Some (JStr ''terminal_input'') then handleTerminalInput e ws payload s
      else if type = Some (JStr ''terminal_resize'') then handleTerminalResize e ws payload s
      else if type = Some (JStr ''clipboard_sync'') then handleClipboardSync e ws payload s
      else if type = Some (JStr ''mouse_event'') then handleMouseEvent e ws payload s
      else if type = Some (JStr ''keyboard_event'') then handleKeyboardEvent e ws payload s
      else if type = Some (JStr ''ping'') then (None, sendMessage ws (Pong_message (now e)) s)
      else (None, s))"

definition handleMessage_try :: "env \<Rightarrow> ws \<Rightarrow> json option \<Rightarrow> service \<Rightarrow> js_error option \<times> service" where
  "handleMessage_try e ws parsed s =
     (case parsed of
        None \<Rightarrow> (Some SyntaxError, s)
      | Some message \<Rightarrow>
          (case (get_prop (Some message) ''type'', get_prop (Some message) ''payload'') of
             (Inr type, Inr payload) \<Rightarrow>
               (case info_of s ws of
                  None \<Rightarrow> (Some TypeError, s)
                | Some info \<Rightarrow> dispatch e ws type payload s)
           | _ \<Rightarrow> (Some TypeError, s)))"

definition handleMessage :: "env \<Rightarrow> ws \<Rightarrow> json option \<Rightarrow> service \<Rightarrow> service" where
  "handleMessage e ws parsed s =
     (case handleMessage_try e ws parsed s of
        (None, s') \<Rightarrow> s'
      | (Some err, s') \<Rightarrow> sendMessage ws (Error_message (now e)) s')"

definition handleDisconnect :: "ws \<Rightarrow> service \<Rightarrow> service" where
  "handleDisconnect ws s =
     (case (case Map_get ws (connections s) of None \<Rightarrow> None | Some r \<Rightarrow> deref s r) of
        None \<Rightarrow> s
      | Some info \<Rightarrow>
          (let s1 = s\<lparr>connections := Map_delete ws (connections s)\<rparr>;
               s2 = (case Map_get (conn_cloudPCId info) (cloudPCConnections s1) of
                       None \<Rightarrow> s1
                     | Some observers \<Rightarrow>
                         (let remaining = Set_delete ws observers in
                          if length remaining = 0
                          then s1\<lparr>cloudPCConnections :=
                                    Map_delete (conn_cloudPCId info) (cloudPCConnections s1)\<rparr>
                          else s1\<lparr>cloudPCConnections :=
                                    Map_set (conn_cloudPCId info) remaining (cloudPCConnections s1)\<rparr>))
           in case Map_get (conn_sessionId info) (terminalSessions s2) of
                None \<Rightarrow> s2
              | Some session \<Rightarrow> put_session (conn_sessionId info) (session\<lparr>isActive := False\<rparr>) s2))"

text \<open>The listener of \<open>pong\<close>: \<open>ws.connectionInfo.isAlive = true\<close>.\<close>

definition set_alive :: "ref \<Rightarrow> bool \<Rightarrow> service \<Rightarrow> service" where
  "set_alive r b s =
     (if r < length (objects s) then s\<lparr>objects := (objects s)[r := (objects s ! r)\<lparr>isAlive := b\<rparr>]\<rparr> else s)"

definition handlePong :: "ws \<Rightarrow> service \<Rightarrow> service" where
  "handlePong ws s = (case connectionInfo (sockets s ws) of None \<Rightarrow> s | Some r \<Rightarrow> set_alive r True s)"

text \<open>
  The callback of \<open>startHeartbeat\<close>, run every 30 seconds: \<open>heartbeat_visit\<close> is
  the body of the \<open>forEach\<close> for one entry of \<open>connections\<close>, \<open>heartbeat\<close> the
  whole sweep. Only the entry being visited is deleted, so the sweep visits the entries
  that the map holds when it starts.
\<close>

definition heartbeat_visit :: "ws \<times> ref \<Rightarrow> service \<Rightarrow> service" where
  "heartbeat_visit entry s =
     (case entry of
        (ws, r) \<Rightarrow>
          if readyState (sockets s ws) = OPEN then
            (case deref s r of
               None \<Rightarrow> s
             | Some info \<Rightarrow>
                 if \<not> isAlive info
                 then (let s1 = ws_terminate ws s in s1\<lparr>connections := Map_delete ws (connections s1)\<rparr>)
                 else ws_ping ws (set_alive r False s))
          else s)"

definition heartbeat :: "service \<Rightarrow> service" where
  "heartbeat s = fold heartbeat_visit (connections s) s"

section \<open>Runs of the service\<close>

text \<open>
  What happens to the service: a handshake arrives on a socket, a socket emits
  \<open>message\<close>, \<open>close\<close> or \<open>pong\<close>, or the heartbeat timer fires. The listeners
  run on a socket only after \<open>handleConnection\<close> has attached them. A socket is open
  when the server hands it over, and closed when it emits \<open>close\<close>.
\<close>

datatype event =
    Connect ws request
  | Message ws "json option"
  | Close ws
  | Pong ws
  | Sweep

definition step ::
  "(string \<Rightarrow> (string \<times> json) list option) \<Rightarrow> env \<times> event \<Rightarrow> service \<Rightarrow> service" where
  "step verify ev s =
     (case ev of
        (e, Connect ws req) \<Rightarrow> handleConnection e verify ws req s
      | (e, Message ws parsed) \<Rightarrow> if listening (sockets s ws) then handleMessage e ws parsed s else s
      | (e, Close ws) \<Rightarrow>
          (let s1 = update_socket ws (\<lambda>k. k\<lparr>readyState := CLOSED\<rparr>) s
           in if listening (sockets s ws) then handleDisconnect ws s1 else s1)
      | (e, Pong ws) \<Rightarrow> if listening (sockets s ws) then handlePong ws s else s
      | (e, Sweep) \<Rightarrow> heartbeat s)"

definition run ::
  "(string \<Rightarrow> (string \<times> json) list option) \<Rightarrow> (env \<times> event) list \<Rightarrow> service \<Rightarrow> service" where
  "run verify evs s = fold (step verify) evs s"

definition new_socket :: socket where
  "new_socket = \<lparr>readyState = OPEN, sent = [], closeCode = None, pings = 0, listening = False,
                 connectionInfo = None\<rparr>"

definition initial :: service where
  "initial = \<lparr>connections = [], cloudPCConnections = [], terminalSessions = [], objects = [],
              sockets = (\<lambda>ws. new_socket)\<rparr>"

text \<open>Concrete inputs used below: a verifier that accepts the token \<open>good\<close>, a clock
  reading, and a handshake for the cloud PC \<open>pc1\<close> with the session \<open>s1\<close>.\<close>

definition sample_verify :: "string \<Rightarrow> (string \<times> json) list option" where
  "sample_verify t = (if t = ''good'' then Some [(''id'', JStr ''u1'')] else None)"

definition sample_env :: env where
  "sample_env = \<lparr>now = 1000, date_text = ''Tue Nov 03 2026 10:00:00 GMT+0000'', uptime = 93784,
                 fresh_sessionId = ''session_1000_abc''\<rparr>"

definition sample_request :: request where
  "sample_request =
     \<lparr>url = Some [(''token'', ''good''), (''cloudPCId'', ''pc1''), (''sessionId'', ''s1'')],
      user_agent = None\<rparr>"

definition connected :: service where
  "connected = handleConnection sample_env sample_verify 1 sample_request initial"

section \<open>Notions for the statements\<close>

text \<open>Every set of the fan-out index has a member.\<close>

definition all_observed :: "(string \<times> ws list) list \<Rightarrow> bool" where
  "all_observed m = list_all (\<lambda>p. snd p \<noteq> []) m"

text \<open>The session id of a handshake, and the handshakes \<open>handleConnection\<close> lets
  through: the URL parses, carries a non-empty token and cloud-PC id, and the token
  verifies.\<close>

definition sessionId_of :: "env \<Rightarrow> (string \<times> string) list \<Rightarrow> string" where
  "sessionId_of e params =
     (case searchParams_get params ''sessionId'' of
        None \<Rightarrow> fresh_sessionId e
      | Some sid \<Rightarrow> if sid = [] then fresh_sessionId e else sid)"

definition accepted :: "(string \<Rightarrow> (string \<times> json) list option) \<Rightarrow> request \<Rightarrow> bool" where
  "accepted verify req =
     (case url req of
        None \<Rightarrow> False
      | Some params \<Rightarrow>
          (case (searchParams_get params ''token'', searchParams_get params ''cloudPCId'') of
             (Some t, Some cid) \<Rightarrow> t \<noteq> [] \<and> cid \<noteq> [] \<and> verify t \<noteq> None
           | _ \<Rightarrow> False))"

text \<open>An established connection: the socket is open, it is a key of \<open>connections\<close>,
  and it is in the set of its cloud PC in the fan-out index.\<close>

definition established :: "service \<Rightarrow> ws \<Rightarrow> bool" where
  "established s ws =
     (readyState (sockets s ws) = OPEN \<and>
      (case Map_get ws (connections s) of
         None \<Rightarrow> False
       | Some r \<Rightarrow>
           (case deref s r of
              None \<Rightarrow> False
            | Some info \<Rightarrow>
                (case Map_get (conn_cloudPCId info) (cloudPCConnections s) of
                   None \<Rightarrow> False
                 | Some observers \<Rightarrow> ws \<in> set observers))))"

text \<open>The state \<open>connected\<close> spelled out, the state after a sweep that finds the
  connection alive (the flag is cleared and a ping sent), and the state after a second
  sweep with no pong in between.\<close>

definition connected_info :: connection_info where
  "connected_info = \<lparr>conn_userId = Some (JStr ''u1''), conn_cloudPCId = ''pc1'',
     conn_sessionId = ''s1'', connectedAt = 1000, isAlive = True, userAgent = None\<rparr>"

definition connected_session :: terminal_session where
  "connected_session = \<lparr>term_id = ''s1'', term_cloudPCId = ''pc1'',
      term_userId = Some (JStr ''u1''), createdAt = 1000, isActive = True,
      commands = [], outputs = [], resizeInfo = None\<rparr>"

definition connected_socket :: socket where
  "connected_socket = \<lparr>readyState = OPEN,
    sent = [Connection_established ''s1'' ''pc1'' 1000, Terminal_welcome ''s1'' ''pc1''],
    closeCode = None, pings = 0, listening = True, connectionInfo = Some 0\<rparr>"

definition unanswered :: service where
  "unanswered = heartbeat connected"

definition swept :: service where
  "swept = heartbeat unanswered"

text \<open>Handshakes that are turned away: one without a token, one whose token does not
  verify.\<close>

definition tokenless_request :: request where
  "tokenless_request = \<lparr>url = Some [(''cloudPCId'', ''pc1'')], user_agent = None\<rparr>"

definition forged_request :: request where
  "forged_request = \<lparr>url = Some [(''token'', ''forged''), (''cloudPCId'', ''pc1'')], user_agent = None\<rparr>"

text \<open>The prefixes \<open>executeCommand\<close> handles before it consults the table, and the
  commands it does not recognise: after trimming and lower-casing the command is not
  empty, starts with no handled prefix, is no key of the table and no name inherited
  from the prototype.\<close>

definition handler_prefixes :: "string list" where
  "handler_prefixes = [''cat '', ''echo '', ''mkdir '', ''rm '', ''cp '', ''mv '', ''chmod '', ''sudo '']"

definition unrecognized :: "string \<Rightarrow> bool" where
  "unrecognized c =
     (let t = toLowerCase (trim c)
      in t \<noteq> [] \<and> \<not> list_ex (startsWith t) handler_prefixes
         \<and> t \<notin> set command_names \<and> t \<notin> set Object_prototype)"

text \<open>The command history of a session renders when \<open>getCommandHistory\<close> returns
  on it: none of its last ten commands is an object with an own \<open>toString\<close>, or an
  array holding one. In \<open>poisoned_session\<close> the one command is such an object, as
  the message \<open>{"type":"terminal_input","payload":{"command":{"toString":1},"sessionId":"s1"}}\<close>
  leaves it.\<close>

definition history_renders :: "terminal_session \<Rightarrow> bool" where
  "history_renders session = (case getCommandHistory session of Inl err \<Rightarrow> False | Inr h \<Rightarrow> True)"

definition poisoned_session :: terminal_session where
  "poisoned_session =
     connected_session\<lparr>commands :=
       [\<lparr>cmd_command = Some (JObj [(''toString'', JNum 1)]), cmd_timestamp = 1000,
         cmd_userId = Some (JStr ''u1'')\<rparr>]\<rparr>"

text \<open>A later reading of the clock.\<close>

definition later_env :: env where
  "later_env = sample_env\<lparr>now := 2000, date_text := ''Tue Nov 03 2026 10:00:01 GMT+0000'', uptime := 93785\<rparr>"

text \<open>A parsed \<open>terminal_input\<close> message for a session, the sizes and the command
  sequences of the two histories of a session, the last hundred elements of a list, and
  a sequence of \<open>terminal_input\<close> messages with string commands handled in order.\<close>

definition terminal_input :: "json \<Rightarrow> string \<Rightarrow> json option" where
  "terminal_input command sid =
     Some (JObj [(''type'', JStr ''terminal_input''),
                 (''payload'', JObj [(''command'', command), (''sessionId'', JStr sid)])])"

definition history_sizes :: "string \<Rightarrow> service \<Rightarrow> (nat \<times> nat) option" where
  "history_sizes sid s =
     map_option (\<lambda>session. (length (commands session), length (outputs session)))
       (Map_get sid (terminalSessions s))"

definition history :: "string \<Rightarrow> service \<Rightarrow> (jsvalue list \<times> jsvalue list) option" where
  "history sid s =
     map_option (\<lambda>session. (map cmd_command (commands session), map out_command (outputs session)))
       (Map_get sid (terminalSessions s))"

definition last100 :: "'a list \<Rightarrow> 'a list" where
  "last100 xs = drop (length xs - 100) xs"

definition feed :: "ws \<Rightarrow> string \<Rightarrow> (env \<times> string) list \<Rightarrow> service \<Rightarrow> service" where
  "feed ws sid inputs s =
     fold (\<lambda>(e, c). handleMessage e ws (terminal_input (JStr c) sid)) inputs s"

section \<open>Properties of the strategy table\<close>

lemma getTTL_api: "getTTL ''api'' = Some 600"
  by (simp add: getTTL_def getStrategy_def strategies_def)

lemma escape_char_a: "escape_char CHR ''a'' = ''a''"
  by (simp add: escape_char_def)

lemma length_quote_replicate_a: "length (quote (replicate n CHR ''a'')) = n + 2"
  by (simp add: quote_def escape_char_a length_concat sum_list_replicate map_replicate_const)


text \<open>
  C3. For every payload \<open>p\<close> that has a JSON serialisation (a JSON value whose
  numbers are integers from \<open>-2^53\<close> to \<open>2^53 - 1\<close>), \<open>getAdaptiveTTL("api", p)\<close>
  is \<open>floor(600 * 0.5)\<close> when the serialised length exceeds 10000, \<open>floor(600 * 1.5)\<close>
  when it is under 1000, and 600 otherwise, 600 being the base TTL of \<open>api\<close>; for every
  other category the base TTL is returned whatever the payload is; a payload of 12000
  characters gives 300.
\<close>

theorem getAdaptiveTTL_by_payload_size:
  "getTTL ''api'' = Some 600
   \<and> getAdaptiveTTL ''api'' (Some p) =
       Inr (Some (if 10000 < length (JSON_stringify p) then \<lfloor>600 * 0.5 :: real\<rfloor>
                  else if length (JSON_stringify p) < 1000 then \<lfloor>600 * 1.5 :: real\<rfloor>
                  else 600))
   \<and> (type \<noteq> ''api'' \<longrightarrow> getAdaptiveTTL type data = Inr (getTTL type))
   \<and> length (JSON_stringify (JStr (replicate 11998 CHR ''a''))) = 12000
   \<and> getAdaptiveTTL ''api'' (Some (JStr (replicate 11998 CHR ''a''))) = Inr (Some 300)"
proof -
  have sized: "\<And>q. getAdaptiveTTL ''api'' (Some q) =
       Inr (Some (if 10000 < length (JSON_stringify q) then \<lfloor>600 * 0.5 :: real\<rfloor>
                  else if length (JSON_stringify q) < 1000 then \<lfloor>600 * 1.5 :: real\<rfloor>
                  else 600))"
    by (simp add: getAdaptiveTTL_def getTTL_api stringify_length_def)
  have other: "type \<noteq> ''api'' \<longrightarrow> getAdaptiveTTL type data = Inr (getTTL type)"
    by (simp add: getAdaptiveTTL_def)
  have len: "length (JSON_stringify (JStr (replicate 11998 CHR ''a''))) = 12000"
    by (simp add: length_quote_replicate_a)
  have big: "getAdaptiveTTL ''api'' (Some (JStr (replicate 11998 CHR ''a''))) = Inr (Some 300)"
    using len by (simp add: sized length_quote_replicate_a)
  show ?thesis
    using getTTL_api sized [of p] other len big by blast
qed

theorem getAdaptiveTTL_by_payload_size_witness:
  "''user'' \<noteq> ''api'' \<and> getAdaptiveTTL ''user'' None = Inr (Some 7200)
   \<and> getAdaptiveTTL ''api'' (Some JNull) = Inr (Some 900)"
  using getAdaptiveTTL_by_payload_size [of JNull "''user''" None]
  by (simp add: getTTL_def getStrategy_def strategies_def)

text \<open>For every category that is not a name inherited from the prototype and every
  payload with a serialisation, the adaptive TTL is a positive number of seconds.\<close>

lemma getTTL_positive:
  "type \<notin> set Object_prototype \<Longrightarrow> \<exists>n. getTTL type = Some n \<and> 0 < n"
  by (simp add: getTTL_def getStrategy_def strategies_def)

lemma getAdaptiveTTL_positive:
  assumes "type \<notin> set Object_prototype"
  shows "\<exists>n. getAdaptiveTTL type (Some v) = Inr (Some n) \<and> 0 < n"
proof (cases "type = ''api''")
  case True
  then show ?thesis
    by (simp add: getAdaptiveTTL_def getTTL_api stringify_length_def Let_def)
next
  case False
  then show ?thesis
    using getTTL_positive [OF assms] by (simp add: getAdaptiveTTL_def)
qed

section \<open>Properties of the cache service\<close>

lemma generateKey_user: "generateKey ''user'' [Some u] = ''user:'' @ u"
  by (simp add: generateKey_def getStrategy_def strategies_def render_def)

lemma generateKey_session: "generateKey ''session'' [Some u] = ''session:'' @ u"
  by (simp add: generateKey_def getStrategy_def strategies_def render_def)

lemma patterns_userUpdated:
  "getInvalidationPatterns ''userUpdated'' (Some \<lparr>userId = Some u, cloudpcId = c\<rparr>)
     = Inr [''user:'' @ u, ''session:'' @ u]"
  by (simp add: getInvalidationPatterns_def generateKey_user generateKey_session)

lemma Map_get_delete: "Map_get k (Map_delete k' m) = (if k = k' then None else Map_get k m)"
  by (induction m) (auto simp: Map_get_def Map_delete_def)

lemma Map_get_set: "Map_get k (Map_set k v m) = Some v"
  by (induction m) (auto simp: Map_get_def)

lemma healthy_store_of: "healthy r \<Longrightarrow> \<exists>es. r = store_of es []"
proof -
  assume h: "healthy r"
  then obtain c where c: "redis r = Some c" "isConnected r" "faults c = []"
    by (auto simp: healthy_def split: option.splits)
  have "c = \<lparr>kv = kv c, faults = []\<rparr>" using c(3) by (cases c) simp
  then have "r = store_of (kv c) []"
    using c(1,2) by (cases r) (simp add: store_of_def)
  then show ?thesis by blast
qed

lemma del_store_of:
  "RedisManager_del k (store_of es []) =
     (Deleted (if Map_has k es then 1 else 0), store_of (Map_delete k es) [])"
  by (simp add: RedisManager_del_def store_of_def getClient_def attempt_def)

lemma get_store_of:
  "RedisManager_get k (store_of es []) =
     ((case Map_get k es of None \<Rightarrow> JNull
       | Some e \<Rightarrow> (case stored e of None \<Rightarrow> JNull | Some v \<Rightarrow> v)),
      store_of es [])"
  by (simp add: RedisManager_get_def store_of_def getClient_def attempt_def split: option.splits)

lemma set_store_of:
  "RedisManager_set k v (Some n) (store_of es []) =
     (True, store_of (Map_set k \<lparr>stored = v, expires = (if n > 0 then Some n else None)\<rparr> es) [])"
  by (simp add: RedisManager_set_def store_of_def getClient_def attempt_def)

lemma invalidate_userUpdated_store_of:
  assumes "CHR ''*'' \<notin> set u"
  shows "redisManager (snd (CacheService_invalidate ''userUpdated''
             (Some \<lparr>userId = Some u, cloudpcId = c\<rparr>) \<lparr>redisManager = store_of es [], metrics = m\<rparr>))
         = store_of (Map_delete (''session:'' @ u) (Map_delete (''user:'' @ u) es)) []"
  using assms
  by (simp add: CacheService_invalidate_def patterns_userUpdated del_store_of)

text \<open>
  C2, as stated, fails when the user id contains the wildcard: for the user id \<open>*\<close> the
  two patterns are \<open>user:*\<close> and \<open>session:*\<close>, they go to the pattern deletion, and
  the entry \<open>user:a\<close> of another user is deleted with them.
\<close>

theorem invalidate_userUpdated_wildcard_counterexample:
  "entries_of (snd (CacheService_invalidate ''userUpdated'' (Some \<lparr>userId = Some ''*'', cloudpcId = None\<rparr>)
       (service_of (store_of [(''user:a'', sample_entry), (''api:x'', sample_entry)] []))))
     = [(''api:x'', sample_entry)]
   \<and> filter (\<lambda>p. fst p \<noteq> ''user:'' @ ''*'' \<and> fst p \<noteq> ''session:'' @ ''*'')
        (entries_of (service_of (store_of [(''user:a'', sample_entry), (''api:x'', sample_entry)] [])))
     = [(''user:a'', sample_entry), (''api:x'', sample_entry)]"
  by (simp add: CacheService_invalidate_def getInvalidationPatterns_def generateKey_def
      getStrategy_def strategies_def render_def service_of_def store_of_def entries_of_def
      RedisManager_delPattern_def getClient_def attempt_def)

text \<open>
  C2, amended. For every user id \<open>u\<close> without the character \<open>*\<close> and a store that is
  connected with no fault due, \<open>invalidate("userUpdated", {userId: u})\<close> removes exactly
  the entries of the keys \<open>user:u\<close> and \<open>session:u\<close> and leaves every other entry as it
  was, and \<open>get("user", u)\<close> and \<open>get("session", u)\<close> afterwards return \<open>null\<close>.
\<close>

theorem invalidate_userUpdated_exact:
  assumes "CHR ''*'' \<notin> set u" and "healthy (redisManager st)"
  shows "entries_of (snd (CacheService_invalidate ''userUpdated'' (Some \<lparr>userId = Some u, cloudpcId = c\<rparr>) st))
           = filter (\<lambda>p. fst p \<noteq> ''user:'' @ u \<and> fst p \<noteq> ''session:'' @ u) (entries_of st)
       \<and> fst (CacheService_get ''user'' u
                (snd (CacheService_invalidate ''userUpdated'' (Some \<lparr>userId = Some u, cloudpcId = c\<rparr>) st))) = JNull
       \<and> fst (CacheService_get ''session'' u
                (snd (CacheService_invalidate ''userUpdated'' (Some \<lparr>userId = Some u, cloudpcId = c\<rparr>) st))) = JNull"
proof -
  obtain es where r: "redisManager st = store_of es []"
    using healthy_store_of [OF assms(2)] by blast
  obtain m where st: "st = \<lparr>redisManager = store_of es [], metrics = m\<rparr>"
    using r by (cases st) simp
  let ?st' = "snd (CacheService_invalidate ''userUpdated'' (Some \<lparr>userId = Some u, cloudpcId = c\<rparr>) st)"
  have r': "redisManager ?st' = store_of (Map_delete (''session:'' @ u) (Map_delete (''user:'' @ u) es)) []"
    unfolding st by (rule invalidate_userUpdated_store_of [OF assms(1)])
  have k: "entries_of ?st' = filter (\<lambda>p. fst p \<noteq> ''user:'' @ u \<and> fst p \<noteq> ''session:'' @ u) (entries_of st)"
    by (simp add: entries_of_def r' r store_of_def Map_delete_def conj_commute)
  have g1: "fst (CacheService_get ''user'' u ?st') = JNull"
    by (simp add: CacheService_get_def generateKey_user r' get_store_of Map_get_delete)
  have g2: "fst (CacheService_get ''session'' u ?st') = JNull"
    by (simp add: CacheService_get_def generateKey_session r' get_store_of Map_get_delete)
  show ?thesis using k g1 g2 by simp
qed

theorem invalidate_userUpdated_exact_witness:
  "CHR ''*'' \<notin> set ''u1''
   \<and> healthy (store_of [(''user:u1'', sample_entry), (''user:u2'', sample_entry), (''session:u1'', sample_entry)] [])
   \<and> entries_of (snd (CacheService_invalidate ''userUpdated'' (Some \<lparr>userId = Some ''u1'', cloudpcId = None\<rparr>)
        (service_of (store_of [(''user:u1'', sample_entry), (''user:u2'', sample_entry), (''session:u1'', sample_entry)] []))))
      = [(''user:u2'', sample_entry)]
   \<and> fst (CacheService_get ''user'' ''u1''
        (snd (CacheService_invalidate ''userUpdated'' (Some \<lparr>userId = Some ''u1'', cloudpcId = None\<rparr>)
        (service_of (store_of [(''user:u1'', sample_entry), (''user:u2'', sample_entry), (''session:u1'', sample_entry)] []))))) = JNull"
  using invalidate_userUpdated_exact [of "''u1''"
      "service_of (store_of [(''user:u1'', sample_entry), (''user:u2'', sample_entry), (''session:u1'', sample_entry)] [])" None]
  by (simp add: healthy_def store_of_def service_of_def entries_of_def)

lemma raises_cases:
  "raises r \<Longrightarrow>
     (\<exists>e. getClient r = Inl e) \<or> (\<exists>c c'. getClient r = Inr c \<and> attempt c = (True, c'))"
proof (cases "getClient r")
  case (Inl e)
  then show ?thesis by simp
next
  case (Inr c)
  assume "raises r"
  then show ?thesis using Inr by (cases "attempt c") (simp add: raises_def)
qed

lemma set_raises:
  "raises r \<Longrightarrow> \<exists>r'. RedisManager_set k v t r = (False, r')"
  by (drule raises_cases) (auto simp: RedisManager_set_def)

lemma get_raises:
  "raises r \<Longrightarrow> \<exists>r'. RedisManager_get k r = (JNull, r')"
  by (drule raises_cases) (auto simp: RedisManager_get_def)

lemma del_raises:
  "raises r \<Longrightarrow> \<exists>r'. RedisManager_del k r = (Failed, r')"
  by (drule raises_cases) (auto simp: RedisManager_del_def)

lemma del_unreachable: "unreachable r \<Longrightarrow> RedisManager_del k r = (Failed, r)"
  by (auto simp: unreachable_def RedisManager_del_def split: sum.splits)

lemma delPattern_unreachable: "unreachable r \<Longrightarrow> RedisManager_delPattern k r = (0, r)"
  by (auto simp: unreachable_def RedisManager_delPattern_def split: sum.splits)

lemma invalidate_loop_unreachable: "unreachable r \<Longrightarrow> invalidate_loop ps n r = (n, r)"
  by (induction ps arbitrary: n) (simp_all add: del_unreachable delPattern_unreachable)

lemma CacheService_set_store_error:
  assumes "raises (redisManager st)"
    and "truthy customTTL \<or> getAdaptiveTTL type data = Inr t"
  shows "fst (CacheService_set type key data customTTL st) = False
       \<and> metrics (snd (CacheService_set type key data customTTL st)) = metrics st"
proof -
  let ?t = "if truthy customTTL then customTTL else t"
  obtain r' where r': "RedisManager_set (generateKey type [Some key]) data ?t (redisManager st) = (False, r')"
    using set_raises [OF assms(1)] by blast
  show ?thesis
    using r' assms(2) by (auto simp add: CacheService_set_def split: if_splits)
qed

lemma CacheService_get_store_error:
  assumes "raises (redisManager st)"
  shows "fst (CacheService_get type key st) = JNull
       \<and> metrics (snd (CacheService_get type key st)) = (metrics st)\<lparr>misses := misses (metrics st) + 1\<rparr>"
proof -
  obtain r' where "RedisManager_get (generateKey type [Some key]) (redisManager st) = (JNull, r')"
    using get_raises [OF assms] by blast
  then show ?thesis by (simp add: CacheService_get_def)
qed

lemma CacheService_delete_store_error:
  assumes "raises (redisManager st)"
  shows "fst (CacheService_delete type key st) = Failed
       \<and> metrics (snd (CacheService_delete type key st)) = metrics st"
proof -
  obtain r' where "RedisManager_del (generateKey type [Some key]) (redisManager st) = (Failed, r')"
    using del_raises [OF assms] by blast
  then show ?thesis by (simp add: CacheService_delete_def)
qed

lemma patterns_of_object: "\<exists>ps. getInvalidationPatterns operation (Some d) = Inr ps"
  by (simp add: getInvalidationPatterns_def)

lemma CacheService_invalidate_metrics:
  "metrics (snd (CacheService_invalidate operation (Some d) st)) = metrics st"
proof -
  obtain ps where "getInvalidationPatterns operation (Some d) = Inr ps"
    using patterns_of_object by blast
  then show ?thesis
    by (simp add: CacheService_invalidate_def split: prod.splits)
qed

lemma CacheService_invalidate_unreachable:
  "unreachable (redisManager st) \<Longrightarrow> fst (CacheService_invalidate operation data st) = 0"
  by (cases "getInvalidationPatterns operation data")
     (simp_all add: CacheService_invalidate_def invalidate_loop_unreachable)

lemma CacheService_get_counts:
  "(fst (RedisManager_get (generateKey type [Some key]) (redisManager st)) \<noteq> JNull \<longrightarrow>
      fst (CacheService_get type key st) = fst (RedisManager_get (generateKey type [Some key]) (redisManager st)) \<and>
      metrics (snd (CacheService_get type key st)) = (metrics st)\<lparr>hits := hits (metrics st) + 1\<rparr>)
   \<and> (fst (RedisManager_get (generateKey type [Some key]) (redisManager st)) = JNull \<longrightarrow>
      fst (CacheService_get type key st) = JNull \<and>
      metrics (snd (CacheService_get type key st)) = (metrics st)\<lparr>misses := misses (metrics st) + 1\<rparr>)"
  by (auto simp: CacheService_get_def Let_def split: prod.splits)

lemma CacheService_set_throws: "CacheService_set ''api'' key None None st = (False, count_error st)"
  by (simp add: CacheService_set_def truthy_def getAdaptiveTTL_def stringify_length_def)

lemma CacheService_invalidate_throws:
  "CacheService_invalidate ''userUpdated'' None st = (0, count_error st)"
  by (simp add: CacheService_invalidate_def getInvalidationPatterns_def)

text \<open>When the first deletion of \<open>invalidate\<close> succeeds and the second raises, the
  result is the count of the first.\<close>

lemma invalidate_partial_failure:
  "fst (CacheService_invalidate ''userUpdated'' (Some \<lparr>userId = Some ''u1'', cloudpcId = None\<rparr>)
         (service_of (store_of [(''user:u1'', sample_entry), (''session:u1'', sample_entry)] [False, True]))) = 1"
  by (simp add: CacheService_invalidate_def patterns_userUpdated RedisManager_del_def getClient_def
      attempt_def service_of_def store_of_def Map_has_def Map_delete_def)

text \<open>
  C5, as stated, fails on the errors counter: the RedisManager method catches what the
  store call raises and returns \<open>null\<close>, so \<open>get\<close> sees a miss. With a fault due in
  the store, \<open>get("user", "u1")\<close> returns \<open>null\<close>, counts a miss and leaves the errors
  counter at 0.
\<close>

theorem get_store_error_counts_miss_counterexample:
  "raises (redisManager (service_of (store_of [] [True])))
   \<and> fst (CacheService_get ''user'' ''u1'' (service_of (store_of [] [True]))) = JNull
   \<and> errors (metrics (service_of (store_of [] [True]))) = 0
   \<and> errors (metrics (snd (CacheService_get ''user'' ''u1'' (service_of (store_of [] [True]))))) = 0
   \<and> misses (metrics (snd (CacheService_get ''user'' ''u1'' (service_of (store_of [] [True]))))) = 1"
  by (simp add: raises_def service_of_def store_of_def getClient_def attempt_def
      CacheService_get_def RedisManager_get_def generateKey_def)

text \<open>
  C5, amended. Every operation of the cache service returns a value. When the store call
  raises, \<open>set\<close> returns \<open>false\<close>, \<open>get\<close> returns \<open>null\<close> and counts a miss,
  \<open>delete\<close> returns \<open>false\<close>, and \<open>invalidate\<close> returns 0 when the store is
  unreachable; in these cases the errors counter keeps its value, the error having been
  caught below the service. The errors counter is incremented, with \<open>false\<close> or 0
  returned, when the exception arises in the service call itself (\<open>set\<close> in category
  \<open>api\<close> with an undefined payload, \<open>invalidate\<close> of \<open>userUpdated\<close> with \<open>null\<close>
  data). \<open>get\<close> increments hits on a non-null store result and misses on a null one.
\<close>

theorem cache_service_failure_results:
  assumes "raises (redisManager st)"
  shows "(truthy customTTL \<or> getAdaptiveTTL type data = Inr t \<longrightarrow>
            fst (CacheService_set type key data customTTL st) = False
            \<and> metrics (snd (CacheService_set type key data customTTL st)) = metrics st)
       \<and> fst (CacheService_get type key st) = JNull
       \<and> metrics (snd (CacheService_get type key st)) = (metrics st)\<lparr>misses := misses (metrics st) + 1\<rparr>
       \<and> fst (CacheService_delete type key st) = Failed
       \<and> metrics (snd (CacheService_delete type key st)) = metrics st
       \<and> (unreachable (redisManager st) \<longrightarrow> fst (CacheService_invalidate operation (Some d) st) = 0)
       \<and> metrics (snd (CacheService_invalidate operation (Some d) st)) = metrics st
       \<and> CacheService_set ''api'' key None None st = (False, count_error st)
       \<and> CacheService_invalidate ''userUpdated'' None st = (0, count_error st)
       \<and> errors (metrics (count_error st)) = errors (metrics st) + 1
       \<and> (fst (RedisManager_get (generateKey type [Some key]) (redisManager st0)) \<noteq> JNull \<longrightarrow>
            fst (CacheService_get type key st0) = fst (RedisManager_get (generateKey type [Some key]) (redisManager st0))
            \<and> metrics (snd (CacheService_get type key st0)) = (metrics st0)\<lparr>hits := hits (metrics st0) + 1\<rparr>)
       \<and> (fst (RedisManager_get (generateKey type [Some key]) (redisManager st0)) = JNull \<longrightarrow>
            fst (CacheService_get type key st0) = JNull
            \<and> metrics (snd (CacheService_get type key st0)) = (metrics st0)\<lparr>misses := misses (metrics st0) + 1\<rparr>)"
proof -
  have s: "truthy customTTL \<or> getAdaptiveTTL type data = Inr t \<longrightarrow>
            fst (CacheService_set type key data customTTL st) = False
            \<and> metrics (snd (CacheService_set type key data customTTL st)) = metrics st"
    using CacheService_set_store_error [OF assms] by blast
  have i: "unreachable (redisManager st) \<longrightarrow> fst (CacheService_invalidate operation (Some d) st) = 0"
    using CacheService_invalidate_unreachable by blast
  have e: "errors (metrics (count_error st)) = errors (metrics st) + 1"
    by (simp add: count_error_def)
  show ?thesis
    using s i e CacheService_get_store_error [OF assms, of type key]
      CacheService_delete_store_error [OF assms, of type key]
      CacheService_invalidate_metrics [of operation d st]
      CacheService_set_throws [of key st] CacheService_invalidate_throws [of st]
      CacheService_get_counts [of type key st0]
    by blast
qed

theorem cache_service_failure_results_witness:
  "raises offline_store \<and> unreachable offline_store
   \<and> getAdaptiveTTL ''user'' (Some JNull) = Inr (Some 7200)
   \<and> CacheService_set ''user'' ''u1'' (Some JNull) None (service_of offline_store) = (False, service_of offline_store)
   \<and> CacheService_get ''user'' ''u1'' (service_of offline_store)
       = (JNull, (service_of offline_store)\<lparr>metrics := (metrics (service_of offline_store))\<lparr>misses := 1\<rparr>\<rparr>)
   \<and> CacheService_delete ''user'' ''u1'' (service_of offline_store) = (Failed, service_of offline_store)
   \<and> CacheService_invalidate ''userUpdated'' (Some \<lparr>userId = Some ''u1'', cloudpcId = None\<rparr>) (service_of offline_store)
       = (0, service_of offline_store)
   \<and> fst (CacheService_get ''user'' ''u1''
        (service_of (store_of [(''user:u1'', sample_entry)] []))) = JNum 1
   \<and> hits (metrics (snd (CacheService_get ''user'' ''u1''
        (service_of (store_of [(''user:u1'', sample_entry)] []))))) = 1"
  using cache_service_failure_results [of "service_of offline_store" None "''user''" "Some JNull" "Some 7200"
      "''u1''" "''userUpdated''" "\<lparr>userId = Some ''u1'', cloudpcId = None\<rparr>"
      "service_of (store_of [(''user:u1'', sample_entry)] [])"]
  by (simp add: raises_def unreachable_def offline_store_def service_of_def store_of_def getClient_def
      attempt_def getAdaptiveTTL_def getTTL_def getStrategy_def strategies_def
      CacheService_set_def CacheService_get_def CacheService_delete_def CacheService_invalidate_def
      RedisManager_set_def RedisManager_get_def RedisManager_del_def getInvalidationPatterns_def
      generateKey_def render_def truthy_def sample_entry_def Map_get_def)

text \<open>
  C9. A \<open>ttlOverride\<close> that is \<open>null\<close> or 0 is ignored: \<open>set\<close> behaves as with no
  override, and on a reachable store the entry is written with the TTL that
  \<open>getAdaptiveTTL(category, value)\<close> computes. A non-zero override is the TTL handed to
  the store, whatever \<open>getAdaptiveTTL\<close> would compute.
\<close>

theorem set_ttlOverride_truthiness:
  "(customTTL = None \<or> customTTL = Some 0 \<longrightarrow>
      CacheService_set type key data customTTL st = CacheService_set type key data None st)
   \<and> (customTTL = Some 0 \<and> healthy (redisManager st) \<and> getAdaptiveTTL type data = Inr (Some n) \<and> 0 < n \<longrightarrow>
        fst (CacheService_set type key data customTTL st) = True
        \<and> Map_get (generateKey type [Some key]) (entries_of (snd (CacheService_set type key data customTTL st)))
            = Some \<lparr>stored = data, expires = Some n\<rparr>)
   \<and> (customTTL = Some m \<and> m \<noteq> 0 \<and> healthy (redisManager st) \<longrightarrow>
        fst (CacheService_set type key data customTTL st) = True
        \<and> Map_get (generateKey type [Some key]) (entries_of (snd (CacheService_set type key data customTTL st)))
            = Some \<lparr>stored = data, expires = (if 0 < m then Some m else None)\<rparr>)"
proof -
  have ignored: "customTTL = None \<or> customTTL = Some 0 \<longrightarrow>
      CacheService_set type key data customTTL st = CacheService_set type key data None st"
    by (auto simp: CacheService_set_def truthy_def)
  have adaptive: "customTTL = Some 0 \<and> healthy (redisManager st) \<and> getAdaptiveTTL type data = Inr (Some n) \<and> 0 < n \<longrightarrow>
        fst (CacheService_set type key data customTTL st) = True
        \<and> Map_get (generateKey type [Some key]) (entries_of (snd (CacheService_set type key data customTTL st)))
            = Some \<lparr>stored = data, expires = Some n\<rparr>"
  proof (intro impI, elim conjE)
    assume a: "customTTL = Some 0" "healthy (redisManager st)" "getAdaptiveTTL type data = Inr (Some n)" "0 < n"
    obtain es where r: "redisManager st = store_of es []"
      using healthy_store_of [OF a(2)] by blast
    show "fst (CacheService_set type key data customTTL st) = True
        \<and> Map_get (generateKey type [Some key]) (entries_of (snd (CacheService_set type key data customTTL st)))
            = Some \<lparr>stored = data, expires = Some n\<rparr>"
    proof -
      have "CacheService_set type key data customTTL st =
          (True, st\<lparr>redisManager :=
                      store_of (Map_set (generateKey type [Some key]) \<lparr>stored = data, expires = Some n\<rparr> es) [],
                    metrics := (metrics st)\<lparr>sets := sets (metrics st) + 1\<rparr>\<rparr>)"
        using a(1,3,4) by (simp add: CacheService_set_def truthy_def r set_store_of)
      then show ?thesis
        by (simp add: entries_of_def store_of_def Map_get_set)
    qed
  qed
  have used: "customTTL = Some m \<and> m \<noteq> 0 \<and> healthy (redisManager st) \<longrightarrow>
        fst (CacheService_set type key data customTTL st) = True
        \<and> Map_get (generateKey type [Some key]) (entries_of (snd (CacheService_set type key data customTTL st)))
            = Some \<lparr>stored = data, expires = (if 0 < m then Some m else None)\<rparr>"
  proof (intro impI, elim conjE)
    assume a: "customTTL = Some m" "m \<noteq> 0" "healthy (redisManager st)"
    obtain es where r: "redisManager st = store_of es []"
      using healthy_store_of [OF a(3)] by blast
    show "fst (CacheService_set type key data customTTL st) = True
        \<and> Map_get (generateKey type [Some key]) (entries_of (snd (CacheService_set type key data customTTL st)))
            = Some \<lparr>stored = data, expires = (if 0 < m then Some m else None)\<rparr>"
    proof -
      have "CacheService_set type key data customTTL st =
          (True, st\<lparr>redisManager :=
                      store_of (Map_set (generateKey type [Some key])
                                  \<lparr>stored = data, expires = (if 0 < m then Some m else None)\<rparr> es) [],
                    metrics := (metrics st)\<lparr>sets := sets (metrics st) + 1\<rparr>\<rparr>)"
        using a(1,2) by (simp add: CacheService_set_def truthy_def r set_store_of)
      then show ?thesis
        by (simp add: entries_of_def store_of_def Map_get_set)
    qed
  qed
  show ?thesis using ignored adaptive used by blast
qed

theorem set_ttlOverride_truthiness_witness:
  "healthy (store_of [] []) \<and> getAdaptiveTTL ''user'' (Some (JStr ''x'')) = Inr (Some 7200)
   \<and> CacheService_set ''user'' ''u1'' (Some (JStr ''x'')) (Some 0) (service_of (store_of [] []))
       = CacheService_set ''user'' ''u1'' (Some (JStr ''x'')) None (service_of (store_of [] []))
   \<and> entries_of (snd (CacheService_set ''user'' ''u1'' (Some (JStr ''x'')) (Some 0) (service_of (store_of [] []))))
       = [(''user:u1'', \<lparr>stored = Some (JStr ''x''), expires = Some 7200\<rparr>)]
   \<and> entries_of (snd (CacheService_set ''user'' ''u1'' (Some (JStr ''x'')) (Some 60) (service_of (store_of [] []))))
       = [(''user:u1'', \<lparr>stored = Some (JStr ''x''), expires = Some 60\<rparr>)]"
  using set_ttlOverride_truthiness [of "Some 0" "''user''" "''u1''" "Some (JStr ''x'')" "service_of (store_of [] [])" 7200 60]
    set_ttlOverride_truthiness [of "Some 60" "''user''" "''u1''" "Some (JStr ''x'')" "service_of (store_of [] [])" 7200 60]
  by (simp add: healthy_def store_of_def service_of_def getAdaptiveTTL_def getTTL_def getStrategy_def
      strategies_def CacheService_set_def RedisManager_set_def getClient_def attempt_def truthy_def
      generateKey_def render_def entries_of_def)

section \<open>Properties of the connection registry\<close>

lemma update_socket_fields [simp]:
  "connections (update_socket ws f s) = connections s"
  "cloudPCConnections (update_socket ws f s) = cloudPCConnections s"
  "terminalSessions (update_socket ws f s) = terminalSessions s"
  "objects (update_socket ws f s) = objects s"
  by (simp_all add: update_socket_def)

lemma sendMessage_fields [simp]:
  "connections (sendMessage ws m s) = connections s"
  "cloudPCConnections (sendMessage ws m s) = cloudPCConnections s"
  "terminalSessions (sendMessage ws m s) = terminalSessions s"
  "objects (sendMessage ws m s) = objects s"
  by (simp_all add: sendMessage_def)

lemma ws_close_fields [simp]:
  "connections (ws_close c ws s) = connections s"
  "cloudPCConnections (ws_close c ws s) = cloudPCConnections s"
  "terminalSessions (ws_close c ws s) = terminalSessions s"
  "objects (ws_close c ws s) = objects s"
  by (simp_all add: ws_close_def)

lemma ws_terminate_fields [simp]:
  "connections (ws_terminate ws s) = connections s"
  "cloudPCConnections (ws_terminate ws s) = cloudPCConnections s"
  "terminalSessions (ws_terminate ws s) = terminalSessions s"
  "objects (ws_terminate ws s) = objects s"
  by (simp_all add: ws_terminate_def)

lemma ws_ping_fields [simp]:
  "connections (ws_ping ws s) = connections s"
  "cloudPCConnections (ws_ping ws s) = cloudPCConnections s"
  "terminalSessions (ws_ping ws s) = terminalSessions s"
  "objects (ws_ping ws s) = objects s"
  by (simp_all add: ws_ping_def)

lemma put_session_fields [simp]:
  "connections (put_session sid t s) = connections s"
  "cloudPCConnections (put_session sid t s) = cloudPCConnections s"
  "objects (put_session sid t s) = objects s"
  "sockets (put_session sid t s) = sockets s"
  by (simp_all add: put_session_def)

lemma set_alive_fields [simp]:
  "connections (set_alive r b s) = connections s"
  "cloudPCConnections (set_alive r b s) = cloudPCConnections s"
  "terminalSessions (set_alive r b s) = terminalSessions s"
  "sockets (set_alive r b s) = sockets s"
  by (simp_all add: set_alive_def)

lemma handleTerminalInput_indexes:
  "connections (snd (handleTerminalInput e ws payload s)) = connections s \<and>
   cloudPCConnections (snd (handleTerminalInput e ws payload s)) = cloudPCConnections s"
  by (simp add: handleTerminalInput_def Let_def split: sum.splits option.splits prod.splits)

lemma handleTerminalResize_indexes:
  "connections (snd (handleTerminalResize e ws payload s)) = connections s \<and>
   cloudPCConnections (snd (handleTerminalResize e ws payload s)) = cloudPCConnections s"
  by (simp add: handleTerminalResize_def Let_def split: sum.splits option.splits prod.splits)

lemma handleClipboardSync_indexes:
  "connections (snd (handleClipboardSync e ws payload s)) = connections s \<and>
   cloudPCConnections (snd (handleClipboardSync e ws payload s)) = cloudPCConnections s"
  by (simp add: handleClipboardSync_def split: sum.splits)

lemma dispatch_indexes:
  "connections (snd (dispatch e ws type payload s)) = connections s \<and>
   cloudPCConnections (snd (dispatch e ws type payload s)) = cloudPCConnections s"
  by (simp add: dispatch_def handleTerminalInput_indexes handleTerminalResize_indexes
      handleClipboardSync_indexes handleMouseEvent_def handleKeyboardEvent_def)

lemma handleMessage_try_indexes:
  "connections (snd (handleMessage_try e ws parsed s)) = connections s \<and>
   cloudPCConnections (snd (handleMessage_try e ws parsed s)) = cloudPCConnections s"
  by (simp add: handleMessage_try_def dispatch_indexes split: option.splits sum.splits)

lemma handleMessage_indexes:
  "connections (handleMessage e ws parsed s) = connections s \<and>
   cloudPCConnections (handleMessage e ws parsed s) = cloudPCConnections s"
proof -
  obtain thrown s' where t: "handleMessage_try e ws parsed s = (thrown, s')"
    by (cases "handleMessage_try e ws parsed s")
  have "connections s' = connections s \<and> cloudPCConnections s' = cloudPCConnections s"
    using handleMessage_try_indexes [of e ws parsed s] t by simp
  then show ?thesis
    by (cases thrown) (simp_all add: handleMessage_def t)
qed

lemma heartbeat_visit_fanout: "cloudPCConnections (heartbeat_visit entry s) = cloudPCConnections s"
  by (cases entry) (simp add: heartbeat_visit_def Let_def split: option.splits)

lemma fold_heartbeat_visit_fanout:
  "cloudPCConnections (fold heartbeat_visit es s) = cloudPCConnections s"
  by (induction es arbitrary: s) (simp_all add: heartbeat_visit_fanout)

lemma heartbeat_fanout: "cloudPCConnections (heartbeat s) = cloudPCConnections s"
  by (simp add: heartbeat_def fold_heartbeat_visit_fanout)

lemma all_observed_Map_set:
  "all_observed m \<Longrightarrow> v \<noteq> [] \<Longrightarrow> all_observed (Map_set k v m)"
  by (induction m) (simp_all add: all_observed_def)

lemma all_observed_Map_delete: "all_observed m \<Longrightarrow> all_observed (Map_delete k m)"
  by (induction m) (simp_all add: all_observed_def Map_delete_def)

lemma Map_set_twice: "Map_set k v (Map_set k u m) = Map_set k v m"
  by (induction m) simp_all

lemma Set_add_nonempty: "Set_add x xs \<noteq> []"
  by (cases xs) (simp_all add: Set_add_def)

lemma all_observed_get: "all_observed m \<Longrightarrow> Map_get k m = Some v \<Longrightarrow> v \<noteq> []"
proof -
  assume a: "all_observed m" and g: "Map_get k m = Some v"
  have "(k, v) \<in> set m" using g by (simp add: Map_get_def map_of_SomeD)
  then show ?thesis using a by (auto simp: all_observed_def list_all_iff)
qed

lemma handleDisconnect_observed:
  assumes "all_observed (cloudPCConnections s)"
  shows "all_observed (cloudPCConnections (handleDisconnect ws s))"
proof (cases "case Map_get ws (connections s) of None \<Rightarrow> None | Some r \<Rightarrow> deref s r")
  case None
  then show ?thesis using assms by (simp add: handleDisconnect_def)
next
  case (Some info)
  let ?s1 = "s\<lparr>connections := Map_delete ws (connections s)\<rparr>"
  let ?s2 = "case Map_get (conn_cloudPCId info) (cloudPCConnections ?s1) of
               None \<Rightarrow> ?s1
             | Some observers \<Rightarrow>
                 (let remaining = Set_delete ws observers in
                  if length remaining = 0
                  then ?s1\<lparr>cloudPCConnections := Map_delete (conn_cloudPCId info) (cloudPCConnections ?s1)\<rparr>
                  else ?s1\<lparr>cloudPCConnections := Map_set (conn_cloudPCId info) remaining (cloudPCConnections ?s1)\<rparr>)"
  have s2: "all_observed (cloudPCConnections ?s2)"
    using assms
    by (cases "Map_get (conn_cloudPCId info) (cloudPCConnections s)")
       (simp_all add: Let_def all_observed_Map_set all_observed_Map_delete)
  have "cloudPCConnections (handleDisconnect ws s) = cloudPCConnections ?s2"
    using Some
    by (cases "Map_get (conn_sessionId info) (terminalSessions ?s2)")
       (simp_all add: handleDisconnect_def Let_def)
  then show ?thesis using s2 by simp
qed

lemma initializeTerminalSession_fanout:
  "cloudPCConnections (snd (initializeTerminalSession e ws cid sid s)) = cloudPCConnections s"
  by (cases "info_of s ws") (simp_all add: initializeTerminalSession_def Let_def)

lemma sendMessage_socket [simp]:
  "readyState (sockets (sendMessage ws m s) w) = readyState (sockets s w)"
  "closeCode (sockets (sendMessage ws m s) w) = closeCode (sockets s w)"
  "listening (sockets (sendMessage ws m s) w) = listening (sockets s w)"
  "connectionInfo (sockets (sendMessage ws m s) w) = connectionInfo (sockets s w)"
  by (simp_all add: sendMessage_def update_socket_def)

lemma deref_sendMessage [simp]: "deref (sendMessage ws m s) r = deref s r"
  by (simp add: deref_def cong: if_cong)

lemma info_of_sendMessage [simp]: "info_of (sendMessage ws m s) w = info_of s w"
  by (simp add: info_of_def cong: option.case_cong)

lemma handleConnection_rejected:
  assumes "\<not> accepted verify req"
  shows "handleConnection e verify ws req s = ws_close (if url req = None then 1011 else 1008) ws s"
proof (cases "url req")
  case None
  then show ?thesis by (simp add: handleConnection_def Let_def)
next
  case (Some params)
  show ?thesis
  proof (cases "searchParams_get params ''token''")
    case None
    then show ?thesis using Some by (simp add: handleConnection_def Let_def)
  next
    case t: (Some t)
    show ?thesis
    proof (cases "searchParams_get params ''cloudPCId''")
      case None
      then show ?thesis using Some t by (simp add: handleConnection_def Let_def)
    next
      case c: (Some cid)
      have "t = [] \<or> cid = [] \<or> verify t = None"
        using assms Some t c by (simp add: accepted_def)
      then show ?thesis using Some t c by (auto simp add: handleConnection_def Let_def)
    qed
  qed
qed

lemma handleConnection_accepted:
  assumes "url req = Some params"
    and "searchParams_get params ''token'' = Some t" and "t \<noteq> []"
    and "searchParams_get params ''cloudPCId'' = Some cid" and "cid \<noteq> []"
    and "verify t = Some decoded"
  shows "connections (handleConnection e verify ws req s) = Map_set ws (length (objects s)) (connections s)"
    and "cloudPCConnections (handleConnection e verify ws req s) =
           Map_set cid (Set_add ws (case Map_get cid (cloudPCConnections s) of None \<Rightarrow> [] | Some obs \<Rightarrow> obs))
             (cloudPCConnections s)"
    and "terminalSessions (handleConnection e verify ws req s) =
           Map_set (sessionId_of e params)
             \<lparr>term_id = sessionId_of e params, term_cloudPCId = cid, term_userId = map_of decoded ''id'',
              createdAt = now e, isActive = True, commands = [], outputs = [], resizeInfo = None\<rparr>
             (terminalSessions s)"
    and "listening (sockets (handleConnection e verify ws req s) ws)"
    and "readyState (sockets (handleConnection e verify ws req s) ws) = readyState (sockets s ws)"
    and "closeCode (sockets (handleConnection e verify ws req s) ws) = closeCode (sockets s ws)"
  using assms
  by (simp_all add: handleConnection_def Let_def initializeTerminalSession_def info_of_def deref_def
      update_socket_def put_session_def sessionId_of_def Map_has_def Map_get_def Map_set_twice
      Map_get_set [unfolded Map_get_def]
      split: option.splits)

lemma connected_eq:
  "connected = \<lparr>connections = [(1, 0)], cloudPCConnections = [(''pc1'', [1])],
      terminalSessions = [(''s1'', connected_session)], objects = [connected_info],
      sockets = (\<lambda>ws. new_socket)(1 := connected_socket)\<rparr>"
  by (simp add: connected_def handleConnection_def sample_request_def sample_verify_def sample_env_def
      initial_def searchParams_get_def Let_def update_socket_def new_socket_def Map_has_def Map_get_def
      Set_add_def sendMessage_def initializeTerminalSession_def info_of_def deref_def put_session_def
      connected_info_def connected_session_def connected_socket_def)

lemma unanswered_eq:
  "unanswered = \<lparr>connections = [(1, 0)], cloudPCConnections = [(''pc1'', [1])],
      terminalSessions = [(''s1'', connected_session)], objects = [connected_info\<lparr>isAlive := False\<rparr>],
      sockets = (\<lambda>ws. new_socket)(1 := connected_socket\<lparr>pings := 1\<rparr>)\<rparr>"
  by (simp add: unanswered_def connected_eq heartbeat_def heartbeat_visit_def deref_def
      connected_socket_def connected_info_def set_alive_def ws_ping_def update_socket_def)

lemma swept_eq:
  "swept = \<lparr>connections = [], cloudPCConnections = [(''pc1'', [1])],
      terminalSessions = [(''s1'', connected_session)], objects = [connected_info\<lparr>isAlive := False\<rparr>],
      sockets = (\<lambda>ws. new_socket)(1 := connected_socket\<lparr>readyState := CLOSING, pings := 1\<rparr>)\<rparr>"
  by (simp add: swept_def unanswered_eq heartbeat_def heartbeat_visit_def deref_def
      connected_socket_def connected_info_def ws_terminate_def update_socket_def Map_delete_def Let_def)

lemma close_after_sweep:
  "step sample_verify (sample_env, Close 1) swept =
     swept\<lparr>sockets := (sockets swept)(1 := (sockets swept 1)\<lparr>readyState := CLOSED\<rparr>)\<rparr>"
  by (simp add: step_def swept_eq update_socket_def connected_socket_def handleDisconnect_def Map_get_def)

text \<open>After the sweep has deleted a socket from \<open>connections\<close>, \<open>handleDisconnect\<close>
  does nothing for it.\<close>

lemma handleDisconnect_unregistered:
  "Map_get ws (connections s) = None \<Longrightarrow> handleDisconnect ws s = s"
  by (simp add: handleDisconnect_def)

text \<open>
  C1 fails on the code. After a handshake and a sweep that clears the liveness flag, the
  connection is registered, open and its flag is false. The next sweep terminates the
  socket and deletes it from \<open>connections\<close>, and leaves it in the set of \<open>pc1\<close> in
  the fan-out index. The \<open>close\<close> event that follows runs \<open>handleDisconnect\<close>, which
  returns at once because the socket is no longer a key of \<open>connections\<close>: the socket
  stays in the fan-out index and its terminal session stays active.
\<close>

theorem heartbeat_leaves_fanout_entry: "Map_get 1 (connections unanswered) = Some 0
   \<and> map_option isAlive (deref unanswered 0) = Some False
   \<and> readyState (sockets unanswered 1) = OPEN
   \<and> Map_get 1 (connections (heartbeat unanswered)) = None
   \<and> readyState (sockets (heartbeat unanswered) 1) = CLOSING
   \<and> Map_get ''pc1'' (cloudPCConnections (heartbeat unanswered)) = Some [1]
   \<and> Map_get ''pc1'' (cloudPCConnections (step sample_verify (sample_env, Close 1) (heartbeat unanswered))) = Some [1]
   \<and> map_option isActive (Map_get ''s1'' (terminalSessions (step sample_verify (sample_env, Close 1) (heartbeat unanswered)))) = Some True"
  unfolding swept_def [symmetric] close_after_sweep
  by (simp add: swept_eq unanswered_eq Map_get_def deref_def connected_socket_def connected_session_def)

lemma acceptedD:
  assumes "accepted verify req"
  obtains params t cid decoded where "url req = Some params"
    and "searchParams_get params ''token'' = Some t" and "t \<noteq> []"
    and "searchParams_get params ''cloudPCId'' = Some cid" and "cid \<noteq> []"
    and "verify t = Some decoded"
  using assms
  by (auto simp: accepted_def split: option.splits)

lemma handleConnection_observed:
  assumes "all_observed (cloudPCConnections s)"
  shows "all_observed (cloudPCConnections (handleConnection e verify ws req s))"
proof (cases "accepted verify req")
  case False
  then show ?thesis using assms by (simp add: handleConnection_rejected)
next
  case True
  then obtain params t cid decoded where a: "url req = Some params"
    "searchParams_get params ''token'' = Some t" "t \<noteq> []"
    "searchParams_get params ''cloudPCId'' = Some cid" "cid \<noteq> []"
    "verify t = Some decoded"
    by (rule acceptedD)
  have "cloudPCConnections (handleConnection e verify ws req s) =
           Map_set cid (Set_add ws (case Map_get cid (cloudPCConnections s) of None \<Rightarrow> [] | Some obs \<Rightarrow> obs))
             (cloudPCConnections s)"
    using a by (rule handleConnection_accepted(2))
  then show ?thesis
    using assms by (simp add: all_observed_Map_set Set_add_nonempty)
qed

lemma handlePong_fanout: "cloudPCConnections (handlePong ws s) = cloudPCConnections s"
  by (cases "connectionInfo (sockets s ws)") (simp_all add: handlePong_def)

lemma step_observed:
  assumes "all_observed (cloudPCConnections s)"
  shows "all_observed (cloudPCConnections (step verify ev s))"
proof -
  obtain e ev' where ev: "ev = (e, ev')" by (cases ev)
  show ?thesis
  proof (cases ev')
    case (Connect ws req)
    then show ?thesis using assms ev by (simp add: step_def handleConnection_observed)
  next
    case (Message ws parsed)
    then show ?thesis using assms ev by (simp add: step_def handleMessage_indexes)
  next
    case (Close ws)
    have "all_observed (cloudPCConnections (update_socket ws (\<lambda>k. k\<lparr>readyState := CLOSED\<rparr>) s))"
      using assms by simp
    then show ?thesis using Close ev
      by (simp add: step_def Let_def handleDisconnect_observed del: update_socket_fields)
  next
    case (Pong ws)
    then show ?thesis using assms ev by (simp add: step_def handlePong_fanout)
  next
    case Sweep
    then show ?thesis using assms ev by (simp add: step_def heartbeat_fanout)
  qed
qed

lemma run_observed:
  "all_observed (cloudPCConnections s) \<Longrightarrow> all_observed (cloudPCConnections (run verify evs s))"
  unfolding run_def
  by (induction evs arbitrary: s) (simp_all add: step_observed)

text \<open>
  C10. In every state reached from the empty service by handshakes, messages, close and
  pong events and sweeps, every cloud-PC id that is a key of the fan-out index has a
  non-empty set.
\<close>

theorem fanout_sets_nonempty:
  "Map_get cid (cloudPCConnections (run verify evs initial)) = Some observers \<Longrightarrow> observers \<noteq> []"
proof -
  have "all_observed (cloudPCConnections initial)"
    by (simp add: initial_def all_observed_def)
  then have "all_observed (cloudPCConnections (run verify evs initial))"
    by (rule run_observed)
  then show "Map_get cid (cloudPCConnections (run verify evs initial)) = Some observers \<Longrightarrow> observers \<noteq> []"
    by (rule all_observed_get)
qed

lemma run_connect: "run sample_verify [(sample_env, Connect 1 sample_request)] initial = connected"
  by (simp add: run_def step_def connected_def)

theorem fanout_sets_nonempty_witness:
  "Map_get ''pc1'' (cloudPCConnections (run sample_verify [(sample_env, Connect 1 sample_request)] initial)) = Some [1]
   \<and> [1::nat] \<noteq> []"
  using fanout_sets_nonempty [of "''pc1''" sample_verify "[(sample_env, Connect 1 sample_request)]" "[1]"]
  unfolding run_connect
  by (simp add: connected_eq Map_get_def)

text \<open>
  C6. On an established connection, a message whose body is not JSON is answered with
  exactly one message, of type \<open>error\<close>, to that socket; the socket stays open with no
  close code set, both indexes are as before, and the connection is still established.
\<close>

theorem malformed_message_error_reply:
  assumes "established s ws"
  shows "sent (sockets (handleMessage e ws None s) ws) = sent (sockets s ws) @ [Error_message (now e)]
       \<and> message_type (Error_message (now e)) = ''error''
       \<and> readyState (sockets (handleMessage e ws None s) ws) = OPEN
       \<and> closeCode (sockets (handleMessage e ws None s) ws) = closeCode (sockets s ws)
       \<and> connections (handleMessage e ws None s) = connections s
       \<and> cloudPCConnections (handleMessage e ws None s) = cloudPCConnections s
       \<and> established (handleMessage e ws None s) ws"
proof -
  have op: "readyState (sockets s ws) = OPEN"
    using assms by (simp add: established_def)
  have h: "handleMessage e ws None s = sendMessage ws (Error_message (now e)) s"
    by (simp add: handleMessage_def handleMessage_try_def)
  have est: "established (sendMessage ws (Error_message (now e)) s) ws"
    using assms by (simp add: established_def cong: option.case_cong)
  show ?thesis
    unfolding h using op est by (simp add: sendMessage_def update_socket_def)
qed

theorem malformed_message_error_reply_witness:
  "established connected 1
   \<and> sent (sockets (handleMessage sample_env 1 None connected) 1)
      = [Connection_established ''s1'' ''pc1'' 1000, Terminal_welcome ''s1'' ''pc1'', Error_message 1000]
   \<and> readyState (sockets (handleMessage sample_env 1 None connected) 1) = OPEN
   \<and> connections (handleMessage sample_env 1 None connected) = [(1, 0)]
   \<and> cloudPCConnections (handleMessage sample_env 1 None connected) = [(''pc1'', [1])]"
  using malformed_message_error_reply [of connected 1 sample_env]
  by (simp add: established_def connected_eq Map_get_def deref_def connected_info_def
      connected_socket_def sample_env_def)

lemma handleConnection_objects:
  assumes "url req = Some params"
    and "searchParams_get params ''token'' = Some t" and "t \<noteq> []"
    and "searchParams_get params ''cloudPCId'' = Some cid" and "cid \<noteq> []"
    and "verify t = Some decoded"
  shows "objects (handleConnection e verify ws req s) = objects s @
           [\<lparr>conn_userId = map_of decoded ''id'', conn_cloudPCId = cid,
             conn_sessionId = sessionId_of e params, connectedAt = now e,
             isAlive = True, userAgent = user_agent req\<rparr>]"
  using assms
  by (simp add: handleConnection_def Let_def initializeTerminalSession_def info_of_def deref_def
      update_socket_def put_session_def sessionId_of_def
      split: option.splits)

lemma Set_add_member: "ws \<in> set (Set_add ws xs)"
  by (simp add: Set_add_def)

lemma ws_close_socket:
  "readyState (sockets s ws) = OPEN \<Longrightarrow>
     readyState (sockets (ws_close code ws s) ws) = CLOSING \<and>
     closeCode (sockets (ws_close code ws s) ws) = Some code"
  by (simp add: ws_close_def update_socket_def)

lemma ws_close_listening: "listening (sockets (ws_close code ws s) w) = listening (sockets s w)"
  by (simp add: ws_close_def update_socket_def)

text \<open>
  C7. A handshake that is not accepted changes no index, creates no connection record
  and no terminal session and attaches no listener; when its URL parses (so a token or
  a cloud-PC id is missing or empty, or the token does not verify) the open socket is
  closed with code 1008. A handshake with a non-empty token that verifies and a
  non-empty cloud-PC id is accepted: the socket is a key of \<open>connections\<close> with a new
  connection record, it is in the set of its cloud PC in the fan-out index, a fresh
  terminal session is stored under its session id, and the socket is not closed.
\<close>

theorem handshake_gate:
  "(\<not> accepted verify req \<longrightarrow>
      connections (handleConnection e verify ws req s) = connections s
      \<and> cloudPCConnections (handleConnection e verify ws req s) = cloudPCConnections s
      \<and> terminalSessions (handleConnection e verify ws req s) = terminalSessions s
      \<and> objects (handleConnection e verify ws req s) = objects s
      \<and> listening (sockets (handleConnection e verify ws req s) ws) = listening (sockets s ws))
   \<and> (\<not> accepted verify req \<and> url req \<noteq> None \<and> readyState (sockets s ws) = OPEN \<longrightarrow>
      readyState (sockets (handleConnection e verify ws req s) ws) = CLOSING
      \<and> closeCode (sockets (handleConnection e verify ws req s) ws) = Some 1008)
   \<and> (url req = Some params \<and> searchParams_get params ''token'' = Some t \<and> t \<noteq> []
        \<and> searchParams_get params ''cloudPCId'' = Some cid \<and> cid \<noteq> [] \<and> verify t = Some decoded \<longrightarrow>
      accepted verify req
      \<and> Map_get ws (connections (handleConnection e verify ws req s)) = Some (length (objects s))
      \<and> deref (handleConnection e verify ws req s) (length (objects s)) =
          Some \<lparr>conn_userId = map_of decoded ''id'', conn_cloudPCId = cid,
                conn_sessionId = sessionId_of e params, connectedAt = now e,
                isAlive = True, userAgent = user_agent req\<rparr>
      \<and> Map_get cid (cloudPCConnections (handleConnection e verify ws req s)) =
          Some (Set_add ws (case Map_get cid (cloudPCConnections s) of None \<Rightarrow> [] | Some obs \<Rightarrow> obs))
      \<and> ws \<in> set (Set_add ws (case Map_get cid (cloudPCConnections s) of None \<Rightarrow> [] | Some obs \<Rightarrow> obs))
      \<and> Map_get (sessionId_of e params) (terminalSessions (handleConnection e verify ws req s)) =
          Some \<lparr>term_id = sessionId_of e params, term_cloudPCId = cid, term_userId = map_of decoded ''id'',
                createdAt = now e, isActive = True, commands = [], outputs = [], resizeInfo = None\<rparr>
      \<and> listening (sockets (handleConnection e verify ws req s) ws)
      \<and> closeCode (sockets (handleConnection e verify ws req s) ws) = closeCode (sockets s ws)
      \<and> readyState (sockets (handleConnection e verify ws req s) ws) = readyState (sockets s ws))"
proof (intro conjI impI)
  assume r: "\<not> accepted verify req"
  note h = handleConnection_rejected [OF r, of e ws s]
  show "connections (handleConnection e verify ws req s) = connections s" by (simp add: h)
  show "cloudPCConnections (handleConnection e verify ws req s) = cloudPCConnections s" by (simp add: h)
  show "terminalSessions (handleConnection e verify ws req s) = terminalSessions s" by (simp add: h)
  show "objects (handleConnection e verify ws req s) = objects s" by (simp add: h)
  show "listening (sockets (handleConnection e verify ws req s) ws) = listening (sockets s ws)"
    by (simp add: h ws_close_listening)
next
  assume a: "\<not> accepted verify req \<and> url req \<noteq> None \<and> readyState (sockets s ws) = OPEN"
  then have h: "handleConnection e verify ws req s = ws_close 1008 ws s"
    by (auto simp add: handleConnection_rejected)
  show "readyState (sockets (handleConnection e verify ws req s) ws) = CLOSING"
    using a by (simp add: h ws_close_socket)
  show "closeCode (sockets (handleConnection e verify ws req s) ws) = Some 1008"
    using a by (simp add: h ws_close_socket)
next
  assume "url req = Some params \<and> searchParams_get params ''token'' = Some t \<and> t \<noteq> []
        \<and> searchParams_get params ''cloudPCId'' = Some cid \<and> cid \<noteq> [] \<and> verify t = Some decoded"
  then have a: "url req = Some params" "searchParams_get params ''token'' = Some t" "t \<noteq> []"
    "searchParams_get params ''cloudPCId'' = Some cid" "cid \<noteq> []" "verify t = Some decoded"
    by simp_all
  show "accepted verify req" using a by (simp add: accepted_def)
  show "Map_get ws (connections (handleConnection e verify ws req s)) = Some (length (objects s))"
    using a by (simp add: handleConnection_accepted(1) [where verify = verify] Map_get_set)
  show "deref (handleConnection e verify ws req s) (length (objects s)) =
          Some \<lparr>conn_userId = map_of decoded ''id'', conn_cloudPCId = cid,
                conn_sessionId = sessionId_of e params, connectedAt = now e,
                isAlive = True, userAgent = user_agent req\<rparr>"
    using a by (simp add: deref_def handleConnection_objects [where verify = verify])
  show "Map_get cid (cloudPCConnections (handleConnection e verify ws req s)) =
          Some (Set_add ws (case Map_get cid (cloudPCConnections s) of None \<Rightarrow> [] | Some obs \<Rightarrow> obs))"
    using a by (simp add: handleConnection_accepted(2) [where verify = verify] Map_get_set)
  show "ws \<in> set (Set_add ws (case Map_get cid (cloudPCConnections s) of None \<Rightarrow> [] | Some obs \<Rightarrow> obs))"
    by (rule Set_add_member)
  show "Map_get (sessionId_of e params) (terminalSessions (handleConnection e verify ws req s)) =
          Some \<lparr>term_id = sessionId_of e params, term_cloudPCId = cid, term_userId = map_of decoded ''id'',
                createdAt = now e, isActive = True, commands = [], outputs = [], resizeInfo = None\<rparr>"
    using a by (simp add: handleConnection_accepted(3) [where verify = verify] Map_get_set)
  show "listening (sockets (handleConnection e verify ws req s) ws)"
    using a by (rule handleConnection_accepted(4))
  show "closeCode (sockets (handleConnection e verify ws req s) ws) = closeCode (sockets s ws)"
    using a by (rule handleConnection_accepted(6))
  show "readyState (sockets (handleConnection e verify ws req s) ws) = readyState (sockets s ws)"
    using a by (rule handleConnection_accepted(5))
qed

theorem handshake_gate_witness:
  "\<not> accepted sample_verify tokenless_request \<and> \<not> accepted sample_verify forged_request
   \<and> url forged_request \<noteq> None \<and> readyState (sockets initial 1) = OPEN
   \<and> connections (handleConnection sample_env sample_verify 1 forged_request initial) = []
   \<and> cloudPCConnections (handleConnection sample_env sample_verify 1 forged_request initial) = []
   \<and> terminalSessions (handleConnection sample_env sample_verify 1 forged_request initial) = []
   \<and> closeCode (sockets (handleConnection sample_env sample_verify 1 forged_request initial) 1) = Some 1008
   \<and> closeCode (sockets (handleConnection sample_env sample_verify 1 tokenless_request initial) 1) = Some 1008
   \<and> accepted sample_verify sample_request
   \<and> Map_get 1 (connections (handleConnection sample_env sample_verify 1 sample_request initial)) = Some 0
   \<and> Map_get ''pc1'' (cloudPCConnections (handleConnection sample_env sample_verify 1 sample_request initial)) = Some [1]
   \<and> map_option isActive (Map_get ''s1'' (terminalSessions (handleConnection sample_env sample_verify 1 sample_request initial))) = Some True"
  using handshake_gate [of sample_verify forged_request sample_env 1 initial "[]" "[]" "[]" "[]"]
    handshake_gate [of sample_verify tokenless_request sample_env 1 initial "[]" "[]" "[]" "[]"]
    handshake_gate [of sample_verify sample_request sample_env 1 initial
          "[(''token'', ''good''), (''cloudPCId'', ''pc1''), (''sessionId'', ''s1'')]" "''good''" "''pc1''"
          "[(''id'', JStr ''u1'')]"]
  by (simp add: accepted_def tokenless_request_def forged_request_def sample_request_def sample_verify_def
      searchParams_get_def initial_def new_socket_def Map_get_def Set_add_def sessionId_of_def)

section \<open>Properties of the simulated terminal\<close>

lemma commands_table_None: "name \<notin> set command_names \<Longrightarrow> commands_table e h name = None"
  by (simp add: command_names_def commands_table_def)

lemma commands_table_clock:
  "name \<noteq> ''date'' \<Longrightarrow> name \<noteq> ''uptime'' \<Longrightarrow>
     commands_table e1 h name = commands_table e2 h name"
  by (simp add: commands_table_def)

lemma commands_lookup_clock:
  "name \<noteq> ''date'' \<Longrightarrow> name \<noteq> ''uptime'' \<Longrightarrow>
     commands_lookup e1 h name = commands_lookup e2 h name"
  by (simp add: commands_lookup_def commands_table_clock [of name e1 h e2])

lemma trim_date: "toLowerCase (trim ''date'') = ''date''"
  by (simp add: toLowerCase_def trim_def is_space_def lower_char_def)

lemma connected_session_history: "getCommandHistory connected_session = Inr (Lit NoHistoryText)"
  by (simp add: getCommandHistory_def connected_session_def)

lemma connected_session_renders: "history_renders connected_session"
  by (simp add: history_renders_def connected_session_history)

text \<open>
  C8, as stated, fails for the command \<open>date\<close>: its output is the text of the clock
  at the time of the call, so two evaluations on the same command and session, a second
  apart, differ.
\<close>

theorem executeCommand_date_counterexample:
  "executeCommand sample_env (Some (JStr ''date'')) connected_session
     = Inr (Str ''Tue Nov 03 2026 10:00:00 GMT+0000'')
   \<and> executeCommand later_env (Some (JStr ''date'')) connected_session
     = Inr (Str ''Tue Nov 03 2026 10:00:01 GMT+0000'')
   \<and> executeCommand sample_env (Some (JStr ''date'')) connected_session
     \<noteq> executeCommand later_env (Some (JStr ''date'')) connected_session"
  by (simp add: executeCommand_def trim_date connected_session_history startsWith_def
      commands_lookup_def commands_table_def truthy_output_def sample_env_def later_env_def)

text \<open>
  C8, amended. The result of \<open>executeCommand\<close> is determined by the command string,
  the session and the readings of the clock and of the process uptime; for every
  command that is not \<open>date\<close> or \<open>uptime\<close> after trimming and lower-casing, and every
  session, the result (the output, or the exception thrown) is the same whatever these
  readings are. On every session whose command history renders, every command that
  after trimming and lower-casing is not empty, starts with no handled prefix, is no
  key of the command table and no name inherited from \<open>Object.prototype\<close> yields the
  \<open>command not found\<close> message with the command as typed.
\<close>

theorem executeCommand_clock_independent:
  "(toLowerCase (trim c) \<noteq> ''date'' \<and> toLowerCase (trim c) \<noteq> ''uptime'' \<longrightarrow>
      executeCommand e1 (Some (JStr c)) session = executeCommand e2 (Some (JStr c)) session)
   \<and> (unrecognized c \<and> history_renders session \<longrightarrow>
      executeCommand e (Some (JStr c)) session = Inr (NotFound c))"
proof (intro conjI impI)
  assume n: "toLowerCase (trim c) \<noteq> ''date'' \<and> toLowerCase (trim c) \<noteq> ''uptime''"
  show "executeCommand e1 (Some (JStr c)) session = executeCommand e2 (Some (JStr c)) session"
  proof (cases "getCommandHistory session")
    case (Inl err)
    then show ?thesis by (simp add: executeCommand_def)
  next
    case (Inr h)
    have "commands_lookup e1 h (toLowerCase (trim c)) = commands_lookup e2 h (toLowerCase (trim c))"
      using n by (simp add: commands_lookup_clock)
    then show ?thesis using Inr by (simp add: executeCommand_def Let_def)
  qed
next
  assume u: "unrecognized c \<and> history_renders session"
  let ?t = "toLowerCase (trim c)"
  obtain h where h: "getCommandHistory session = Inr h"
    using u by (cases "getCommandHistory session") (simp_all add: history_renders_def)
  have t: "?t \<noteq> []" "?t \<notin> set command_names" "?t \<notin> set Object_prototype"
    using u by (simp_all add: unrecognized_def Let_def)
  have p: "\<not> startsWith ?t ''cat ''" "\<not> startsWith ?t ''echo ''" "\<not> startsWith ?t ''mkdir ''"
    "\<not> startsWith ?t ''rm ''" "\<not> startsWith ?t ''cp ''" "\<not> startsWith ?t ''mv ''"
    "\<not> startsWith ?t ''chmod ''" "\<not> startsWith ?t ''sudo ''"
    using u by (simp_all add: unrecognized_def Let_def handler_prefixes_def)
  have l: "commands_lookup e h ?t = None"
    using t by (simp add: commands_lookup_def commands_table_None)
  show "executeCommand e (Some (JStr c)) session = Inr (NotFound c)"
    using t(1) p l h by (simp add: executeCommand_def Let_def)
qed

lemma trim_examples:
  "toLowerCase (trim '' WhoAmI '') = ''whoami''" "toLowerCase (trim ''Foo Bar'') = ''foo bar''"
  by code_simp+

theorem executeCommand_clock_independent_witness:
  "toLowerCase (trim '' WhoAmI '') \<noteq> ''date'' \<and> toLowerCase (trim '' WhoAmI '') \<noteq> ''uptime''
   \<and> executeCommand sample_env (Some (JStr '' WhoAmI '')) connected_session = Inr (Str ''cloudpc'')
   \<and> executeCommand later_env (Some (JStr '' WhoAmI '')) connected_session = Inr (Str ''cloudpc'')
   \<and> unrecognized ''Foo Bar'' \<and> history_renders connected_session
   \<and> executeCommand sample_env (Some (JStr ''Foo Bar'')) connected_session = Inr (NotFound ''Foo Bar'')"
  using executeCommand_clock_independent [of "'' WhoAmI ''" sample_env connected_session later_env sample_env]
    executeCommand_clock_independent [of "''Foo Bar''" sample_env connected_session later_env sample_env]
  by (simp add: trim_examples unrecognized_def handler_prefixes_def startsWith_def command_names_def
      Object_prototype_def executeCommand_def connected_session_history connected_session_renders
      commands_lookup_def commands_table_def truthy_output_def)

text \<open>The two cases the amended statement leaves aside. A command that is a lower-case
  name of the prototype is answered with the inherited member. On a session whose
  history does not render, \<open>executeCommand\<close> throws for every string command, so
  every later \<open>terminal_input\<close> on that session is answered with an \<open>error\<close>
  message until ten further commands have been recorded.\<close>

lemma executeCommand_inherited_name:
  "executeCommand e (Some (JStr ''constructor'')) connected_session = Inr (Inherited ''constructor'')"
  by (simp add: executeCommand_def connected_session_history toLowerCase_def trim_def is_space_def
      lower_char_def startsWith_def commands_lookup_def commands_table_def Object_prototype_def
      truthy_output_def)

lemma poisoned_session_history: "getCommandHistory poisoned_session = Inl TypeError"
  by (simp add: getCommandHistory_def poisoned_session_def connected_session_def String_of_value_def)

lemma executeCommand_poisoned:
  "executeCommand e (Some (JStr c)) poisoned_session = Inl TypeError"
  by (simp add: executeCommand_def poisoned_session_history)

section \<open>Properties of the terminal history\<close>

lemma info_of_put_session [simp]: "info_of (put_session sid t s) w = info_of s w"
  by (simp add: info_of_def deref_def put_session_def cong: option.case_cong if_cong)

lemma session_after_put [simp]:
  "Map_get sid (terminalSessions (put_session sid t s)) = Some t"
  by (simp add: put_session_def Map_get_set)

lemma handleMessage_terminal_input:
  assumes "info_of s ws = Some info" and "Map_get sid (terminalSessions s) = Some session"
  shows "handleMessage e ws (terminal_input command sid) s =
     (let session1 = session\<lparr>commands := commands session @
            [\<lparr>cmd_command = Some command, cmd_timestamp = now e, cmd_userId = conn_userId info\<rparr>]\<rparr>
      in case executeCommand e (Some command) session1 of
           Inl err \<Rightarrow> sendMessage ws (Error_message (now e)) (put_session sid session1 s)
         | Inr out \<Rightarrow>
             (let session2 = session1\<lparr>outputs := outputs session1 @
                    [\<lparr>out_command = Some command, out_output = out, out_timestamp = now e\<rparr>]\<rparr>;
                  session3 = (if length (commands session2) > 100
                              then session2\<lparr>commands := tl (commands session2),
                                            outputs := tl (outputs session2)\<rparr>
                              else session2)
              in sendMessage ws (Terminal_output (Some (JStr sid)) (Some command) out (now e))
                   (put_session sid session3 s)))"
  using assms
  by (simp add: handleMessage_def handleMessage_try_def terminal_input_def get_prop_def dispatch_def
      handleTerminalInput_def terminalSessions_get_def Let_def split: sum.splits)

lemma executeCommand_number: "executeCommand e (Some (JNum n)) session = Inl TypeError"
  by (simp add: executeCommand_def)

lemma number_command_step:
  assumes "info_of s ws = Some info" and "history_sizes sid s = Some (c, out)"
  shows "info_of (handleMessage e ws (terminal_input (JNum n) sid) s) ws = Some info
       \<and> history_sizes sid (handleMessage e ws (terminal_input (JNum n) sid) s) = Some (c + 1, out)"
proof -
  obtain session where s: "Map_get sid (terminalSessions s) = Some session"
    "length (commands session) = c" "length (outputs session) = out"
    using assms(2) by (auto simp: history_sizes_def)
  show ?thesis
    using assms(1) s(2,3)
    by (simp add: handleMessage_terminal_input [OF assms(1) s(1)] executeCommand_number history_sizes_def)
qed

lemma number_commands_grow:
  assumes "info_of s ws = Some info" and "history_sizes sid s = Some (c, out)"
  shows "info_of (((handleMessage e ws (terminal_input (JNum n) sid)) ^^ k) s) ws = Some info
       \<and> history_sizes sid (((handleMessage e ws (terminal_input (JNum n) sid)) ^^ k) s) = Some (c + k, out)"
proof (induction k)
  case 0
  then show ?case using assms by simp
next
  case (Suc k)
  then show ?case
    using number_command_step [of "((handleMessage e ws (terminal_input (JNum n) sid)) ^^ k) s" ws info sid "c + k" out e n]
    by simp
qed

lemma executeCommand_string:
  assumes "history_renders session"
  shows "\<exists>out. executeCommand e (Some (JStr c)) session = Inr out"
proof -
  obtain h where "getCommandHistory session = Inr h"
    using assms by (cases "getCommandHistory session") (simp_all add: history_renders_def)
  then show ?thesis
    by (simp add: executeCommand_def Let_def split: option.splits)
qed

lemma number_lines_strings:
  "(\<And>cmd. cmd \<in> set cmds \<Longrightarrow> \<exists>c. cmd_command cmd = Some (JStr c)) \<Longrightarrow>
     \<exists>lines. number_lines i cmds = Inr lines"
proof (induction cmds arbitrary: i)
  case Nil
  then show ?case by simp
next
  case (Cons cmd cmds)
  obtain c where c: "cmd_command cmd = Some (JStr c)"
    using Cons.prems [of cmd] by auto
  obtain lines where "number_lines (i + 1) cmds = Inr lines"
    using Cons.IH [of "i + 1"] Cons.prems by auto
  then show ?case by (simp add: c String_of_value_def)
qed

lemma strings_render:
  assumes "map cmd_command (commands session) = map (\<lambda>c. Some (JStr c)) hs"
  shows "history_renders session"
proof -
  have all: "\<And>cmd. cmd \<in> set (commands session) \<Longrightarrow> \<exists>c. cmd_command cmd = Some (JStr c)"
  proof -
    fix cmd
    assume "cmd \<in> set (commands session)"
    then have "cmd_command cmd \<in> set (map cmd_command (commands session))" by simp
    then have "cmd_command cmd \<in> set (map (\<lambda>c. Some (JStr c)) hs)" using assms by simp
    then show "\<exists>c. cmd_command cmd = Some (JStr c)" by auto
  qed
  have "\<exists>lines. number_lines 0 (drop (length (commands session) - 10) (commands session)) = Inr lines"
    by (rule number_lines_strings) (auto dest: in_set_dropD all)
  then show ?thesis
    by (auto simp: history_renders_def getCommandHistory_def Let_def)
qed

lemma last100_short: "length xs \<le> 100 \<Longrightarrow> last100 xs = xs"
  by (simp add: last100_def)

lemma last100_append: "last100 (last100 a @ b) = last100 (a @ b)"
proof (cases "length a \<le> 100")
  case True
  then show ?thesis by (simp add: last100_short)
next
  case False
  then show ?thesis by (simp add: last100_def add.commute)
qed

lemma last100_snoc_short: "length h < 100 \<Longrightarrow> last100 (h @ [x]) = h @ [x]"
  by (simp add: last100_def)

lemma last100_snoc_full: "length h = 100 \<Longrightarrow> last100 (h @ [x]) = tl h @ [x]"
  by (cases h) (simp_all add: last100_def)

lemma tl_map: "tl (map f xs) = map f (tl xs)"
  by (cases xs) simp_all

lemma last100_map: "last100 (map f xs) = map f (last100 xs)"
  by (simp add: last100_def drop_map)

lemma string_command_step:
  assumes "info_of s ws = Some info"
    and "history sid s = Some (map (\<lambda>c. Some (JStr c)) hs, map (\<lambda>c. Some (JStr c)) hs)"
    and "length hs \<le> 100"
  shows "info_of (handleMessage e ws (terminal_input (JStr c) sid) s) ws = Some info
       \<and> history sid (handleMessage e ws (terminal_input (JStr c) sid) s)
           = Some (map (\<lambda>c. Some (JStr c)) (last100 (hs @ [c])),
                   map (\<lambda>c. Some (JStr c)) (last100 (hs @ [c])))"
proof -
  let ?h = "map (\<lambda>c. Some (JStr c)) hs"
  obtain session where s: "Map_get sid (terminalSessions s) = Some session"
    "map cmd_command (commands session) = ?h" "map out_command (outputs session) = ?h"
    using assms(2) by (auto simp: history_def)
  have len: "length (commands session) = length hs" "length (outputs session) = length hs"
    using s(2,3) by (metis length_map)+
  let ?session1 = "session\<lparr>commands := commands session @
            [\<lparr>cmd_command = Some (JStr c), cmd_timestamp = now e, cmd_userId = conn_userId info\<rparr>]\<rparr>"
  have "map cmd_command (commands ?session1) = map (\<lambda>c. Some (JStr c)) (hs @ [c])"
    using s(2) by simp
  then have "history_renders ?session1" by (rule strings_render)
  then obtain out where out: "executeCommand e (Some (JStr c)) ?session1 = Inr out"
    using executeCommand_string by blast
  show ?thesis
  proof (cases "length hs = 100")
    case True
    then have ne: "hs \<noteq> []" by auto
    show ?thesis
      using True ne assms(1) s(2,3) len
      by (simp add: handleMessage_terminal_input [OF assms(1) s(1)] out history_def Let_def
          last100_snoc_full tl_map [symmetric] map_tl)
  next
    case False
    then have "length hs < 100" using assms(3) by simp
    then show ?thesis
      using assms(1) s(2,3) len
      by (simp add: handleMessage_terminal_input [OF assms(1) s(1)] out history_def Let_def
          last100_snoc_short)
  qed
qed

lemma length_last100: "length (last100 xs) \<le> 100"
  by (simp add: last100_def)

lemma feed_history:
  assumes "info_of s ws = Some info"
    and "history sid s = Some (map (\<lambda>c. Some (JStr c)) hs, map (\<lambda>c. Some (JStr c)) hs)"
    and "length hs \<le> 100"
  shows "info_of (feed ws sid inputs s) ws = Some info
       \<and> history sid (feed ws sid inputs s)
           = Some (map (\<lambda>c. Some (JStr c)) (last100 (hs @ map snd inputs)),
                   map (\<lambda>c. Some (JStr c)) (last100 (hs @ map snd inputs)))"
  using assms
proof (induction inputs arbitrary: s hs)
  case Nil
  then show ?case by (simp add: feed_def last100_short)
next
  case (Cons p inputs)
  obtain e c where p: "p = (e, c)" by (cases p)
  let ?s' = "handleMessage e ws (terminal_input (JStr c) sid) s"
  have step: "info_of ?s' ws = Some info"
    "history sid ?s' = Some (map (\<lambda>c. Some (JStr c)) (last100 (hs @ [c])),
                             map (\<lambda>c. Some (JStr c)) (last100 (hs @ [c])))"
    using string_command_step [OF Cons.prems, of e c] by simp_all
  have "info_of (feed ws sid inputs ?s') ws = Some info
       \<and> history sid (feed ws sid inputs ?s')
           = Some (map (\<lambda>c. Some (JStr c)) (last100 (last100 (hs @ [c]) @ map snd inputs)),
                   map (\<lambda>c. Some (JStr c)) (last100 (last100 (hs @ [c]) @ map snd inputs)))"
    using Cons.IH [OF step length_last100] .
  moreover have "feed ws sid (p # inputs) s = feed ws sid inputs ?s'"
    by (simp add: feed_def p)
  ultimately show ?case
    by (simp add: last100_append p)
qed

lemma connected_history:
  "info_of connected 1 = Some connected_info \<and> history ''s1'' connected = Some ([], [])
   \<and> history_sizes ''s1'' connected = Some (0, 0)"
  by (simp add: connected_eq info_of_def deref_def connected_socket_def history_def history_sizes_def
      Map_get_def connected_session_def)

text \<open>
  On a session whose recorded commands are strings, and for commands that are strings,
  the history is capped as the specification says: both histories hold the last hundred
  commands, in order. After 105 commands, numbered from
  0, they hold the commands 5 to 104.
\<close>

lemma terminal_history_105:
  "history ''s1'' (feed 1 ''s1'' (map (\<lambda>i. (sample_env, show_nat i)) [0..<105]) connected)
     = Some (map (\<lambda>i. Some (JStr (show_nat i))) [5..<105], map (\<lambda>i. Some (JStr (show_nat i))) [5..<105])"
proof -
  have "last100 (map show_nat [0..<105]) = map show_nat [5..<105]"
    by (simp add: last100_def drop_map)
  then show ?thesis
    using feed_history [where s = connected and ws = 1 and info = connected_info and sid = "''s1''"
        and hs = "[]" and inputs = "map (\<lambda>i. (sample_env, show_nat i)) [0..<105]"]
      connected_history
    by (simp add: comp_def)
qed

text \<open>
  C4 fails on the code. \<open>handleTerminalInput\<close> pushes the command onto the history
  before \<open>executeCommand\<close> runs, and \<open>executeCommand\<close> throws on a command that is
  not a string, so the handler is left before the history is trimmed. After 101
  \<open>terminal_input\<close> messages with the command \<open>1\<close> the command history of the
  session holds 101 entries, and the output history none.
\<close>

theorem history_exceeds_cap:
  "history_sizes ''s1'' (((handleMessage sample_env 1 (terminal_input (JNum 1) ''s1'')) ^^ 101) connected)
     = Some (101, 0)"
  using number_commands_grow [where s = connected and ws = 1 and info = connected_info
      and sid = "''s1''" and c = 0 and out = 0 and e = sample_env and n = 1 and k = 101]
    connected_history
  by simp

end
